theory Spec2Isabelle
  imports Main "HOL-Library.Char_ord" "HOL-Library.List_Lexorder" "HOL-Library.Multiset"
begin

section \<open>Restyaboard to Trello conversion (restya2trello.py)\<close>

subsection \<open>Parsed JSON and the Python operations the script applies to it\<close>

text \<open>
  The script works on whatever \<^verbatim>\<open>json.load\<close> returns. A parsed document is a
  value of \<open>json\<close>: \<open>JObj\<close> is a Python dict (an association list in insertion
  order, keys distinct as in a dict), \<open>JArr\<close> a list, \<open>JInt\<close> an unbounded int,
  \<open>JStr\<close> a str held as its UTF-8 bytes. JSON numbers with a fraction or an
  exponent (Python floats) are not part of this model.
\<close>

datatype json =
    JNull
  | JBool bool
  | JInt int
  | JStr string
  | JArr "json list"
  | JObj "(string \<times> json) list"

text \<open>
  The exceptions that end a run. \<open>NotModelled\<close> marks the one place where the
  model stops short of Python: sorting lists whose \<open>position\<close> values are all
  arrays.
\<close>

datatype error = KeyError string | AttributeError | TypeError | NotModelled

text \<open>What the script takes from outside itself: \<^verbatim>\<open>hashlib.md5(b).hexdigest()\<close>,
  \<^verbatim>\<open>str\<close> of a list or dict, and the wall clock; \<open>utcnow_isoformat env n\<close> is what
  the n-th call of \<^verbatim>\<open>datetime.datetime.utcnow().isoformat()\<close> returns in a run.\<close>

record pyenv =
  md5_hexdigest :: "string \<Rightarrow> string"
  repr_compound :: "json \<Rightarrow> string"
  utcnow_isoformat :: "nat \<Rightarrow> string"

text \<open>Python truthiness (\<^verbatim>\<open>if x\<close>, \<^verbatim>\<open>x or y\<close>).\<close>

fun truthy :: "json \<Rightarrow> bool" where
  "truthy JNull = False"
| "truthy (JBool b) = b"
| "truthy (JInt n) = (n \<noteq> 0)"
| "truthy (JStr s) = (s \<noteq> [])"
| "truthy (JArr xs) = (xs \<noteq> [])"
| "truthy (JObj kvs) = (kvs \<noteq> [])"

definition py_or :: "json \<Rightarrow> json \<Rightarrow> json" where
  "py_or a b = (if truthy a then a else b)"

text \<open>\<^verbatim>\<open>x.get(k, d)\<close>: only a dict has \<^verbatim>\<open>get\<close>.\<close>

fun py_get :: "json \<Rightarrow> string \<Rightarrow> json \<Rightarrow> error + json" where
  "py_get (JObj kvs) k d = Inr (case map_of kvs k of None \<Rightarrow> d | Some v \<Rightarrow> v)"
| "py_get _ k d = Inl AttributeError"

text \<open>\<^verbatim>\<open>x[k]\<close> with a str key \<open>k\<close>.\<close>

fun py_getitem :: "json \<Rightarrow> string \<Rightarrow> error + json" where
  "py_getitem (JObj kvs) k = (case map_of kvs k of None \<Rightarrow> Inl (KeyError k) | Some v \<Rightarrow> Inr v)"
| "py_getitem _ k = Inl TypeError"

text \<open>\<^verbatim>\<open>x[0]\<close> on a truthy value.\<close>

fun py_index0 :: "json \<Rightarrow> error + json" where
  "py_index0 (JArr (x # xs)) = Inr x"
| "py_index0 (JStr (c # cs)) = Inr (JStr [c])"
| "py_index0 (JObj kvs) = Inl (KeyError ''0'')"
| "py_index0 _ = Inl TypeError"

text \<open>\<^verbatim>\<open>for x in v\<close>: a dict yields its keys, a str its characters (every loop of
  the script fails on a str element at once, so the model yields one element a byte).\<close>

fun py_iter :: "json \<Rightarrow> error + json list" where
  "py_iter (JArr xs) = Inr xs"
| "py_iter (JObj kvs) = Inr (map (\<lambda>kv. JStr (fst kv)) kvs)"
| "py_iter (JStr s) = Inr (map (\<lambda>c. JStr [c]) s)"
| "py_iter _ = Inl TypeError"

text \<open>\<^verbatim>\<open>v == 1\<close>.\<close>

fun py_eq_1 :: "json \<Rightarrow> bool" where
  "py_eq_1 (JInt n) = (n = 1)"
| "py_eq_1 (JBool b) = b"
| "py_eq_1 _ = False"

definition digit_char :: "nat \<Rightarrow> char" where
  "digit_char n = ''0123456789'' ! n"

function str_nat :: "nat \<Rightarrow> string" where
  "str_nat n = (if n < 10 then [digit_char n] else str_nat (n div 10) @ [digit_char (n mod 10)])"
  by pat_completeness auto
termination
  by (relation "measure id") auto

declare str_nat.simps [simp del]

definition str_int :: "int \<Rightarrow> string" where
  "str_int i = (if i < 0 then CHR ''-'' # str_nat (nat (- i)) else str_nat (nat i))"

text \<open>\<^verbatim>\<open>str(value)\<close>.\<close>

fun py_str :: "pyenv \<Rightarrow> json \<Rightarrow> string" where
  "py_str env (JInt n) = str_int n"
| "py_str env (JStr s) = s"
| "py_str env JNull = ''None''"
| "py_str env (JBool b) = (if b then ''True'' else ''False'')"
| "py_str env v = repr_compound env v"

definition endswith :: "string \<Rightarrow> string \<Rightarrow> bool" where
  "endswith s suf = (length suf \<le> length s \<and> drop (length s - length suf) s = suf)"

subsection \<open>The module-level functions\<close>

definition COLOR_MAPPING :: "(string \<times> (string \<times> string)) list" where
  "COLOR_MAPPING =
     [(''#0091ff'', (''blue'', ''INFO'')),
      (''#baa1e6'', (''purple'', ''FETAL'')),
      (''#f47564'', (''red'', ''CRITICAL'')),
      (''#f7b09c'', (''pink'', ''ERROR'')),
      (''#ffce54'', (''orange'', ''WARNING''))]"

definition gen_trello_id :: "pyenv \<Rightarrow> json \<Rightarrow> string" where
  "gen_trello_id env v = take 24 (md5_hexdigest env (py_str env v))"

definition gen_short_link :: "pyenv \<Rightarrow> string \<Rightarrow> string" where
  "gen_short_link env s = take 8 (md5_hexdigest env s)"

definition normalize_due :: "json \<Rightarrow> error + json" where
  "normalize_due due_value =
     (if truthy due_value then
        (case due_value of
           JStr s \<Rightarrow> (if \<not> endswith s ''Z'' then Inr (JStr (s @ ''Z'')) else Inr due_value)
         | _ \<Rightarrow> Inl AttributeError)
      else Inr due_value)"

subsection \<open>Target records\<close>

text \<open>Fields whose value is the same literal in every run (\<^verbatim>\<open>limits\<close>, \<^verbatim>\<open>prefs\<close>,
  \<^verbatim>\<open>cover\<close>, \<^verbatim>\<open>dueComplete\<close> and the like) are left out of the records.\<close>

record target_label =
  lb_id :: string
  lb_idBoard :: string
  lb_name :: string
  lb_color :: string
  lb_uses :: int

record target_list =
  ls_id :: string
  ls_name :: json
  ls_closed :: bool
  ls_idBoard :: string
  ls_pos :: int
  ls_idOrganization :: string

record target_check_item =
  ci_id :: string
  ci_name :: json
  ci_pos :: int
  ci_state :: string
  ci_idChecklist :: string

record target_checklist =
  ch_id :: string
  ch_name :: json
  ch_idBoard :: string
  ch_idCard :: string
  ch_pos :: int
  ch_checkItems :: "target_check_item list"

record target_card =
  cd_id :: string
  cd_name :: json
  cd_desc :: json
  cd_closed :: bool
  cd_idBoard :: string
  cd_idList :: string
  cd_pos :: int
  cd_idShort :: int
  cd_shortLink :: string
  cd_idLabels :: "string list"
  cd_labels :: "target_label list"
  cd_idChecklists :: "string list"
  cd_due :: json
  cd_dateLastActivity :: string
  cd_idOrganization :: string

text \<open>The export. The empty-board path writes no \<^verbatim>\<open>nodeId\<close>, timestamps,
  \<^verbatim>\<open>idMemberCreator\<close> or \<^verbatim>\<open>memberships\<close>: those are \<open>None\<close> and \<open>[]\<close> there.\<close>

record trello_board =
  b_id :: string
  b_nodeId :: "string option"
  b_name :: string
  b_idOrganization :: string
  b_url :: string
  b_shortLink :: string
  b_dateLastActivity :: "string option"
  b_dateLastView :: "string option"
  b_idMemberCreator :: "string option"
  b_cards :: "target_card list"
  b_labels :: "target_label list"
  b_lists :: "target_list list"
  b_checklists :: "target_checklist list"
  b_membership_ids :: "string list"

subsection \<open>The label dictionary\<close>

text \<open>\<^verbatim>\<open>board_labels_dict\<close>: keys \<open>(trello_color, label_name)\<close>, in insertion order.\<close>

type_synonym label_key = "string \<times> string"
type_synonym labels_dict = "(label_key \<times> target_label) list"

text \<open>\<^verbatim>\<open>COLOR_MAPPING.get(color_hex, {})\<close>: a list or dict is unhashable.\<close>

fun color_lookup :: "json \<Rightarrow> error + (string \<times> string) option" where
  "color_lookup (JStr s) = Inr (map_of COLOR_MAPPING s)"
| "color_lookup (JArr xs) = Inl TypeError"
| "color_lookup (JObj kvs) = Inl TypeError"
| "color_lookup _ = Inr None"

text \<open>The bytes of the default label name the script writes (two CJK characters,
  U+6B63 U+5E38, in UTF-8).\<close>

definition default_label_name :: string where
  "default_label_name = [CHR 0xE6, CHR 0xAD, CHR 0xA3, CHR 0xE5, CHR 0xB8, CHR 0xB8]"

text \<open>The key a label's colour value resolves to (lines 164 to 173).\<close>

definition mapped_key :: "(string \<times> string) option \<Rightarrow> label_key" where
  "mapped_key mapped =
     (let trello_color = (case mapped of None \<Rightarrow> '''' | Some m \<Rightarrow> fst m);
          label_name = (case mapped of None \<Rightarrow> '''' | Some m \<Rightarrow> snd m)
      in if trello_color = [] \<and> label_name = [] then (''green'', default_label_name)
         else (trello_color, label_name))"

text \<open>\<open>get_or_create_board_label\<close> returns a reference into the dictionary: here the
  key, the object now stored under it, and the dictionary.\<close>

definition get_or_create_board_label ::
  "pyenv \<Rightarrow> string \<Rightarrow> labels_dict \<Rightarrow> json \<Rightarrow> error + (label_key \<times> target_label \<times> labels_dict)" where
  "get_or_create_board_label env board_id board_labels_dict restya_label =
     (case py_get restya_label ''id'' (JStr ''unknownLabel'') of
        Inl e \<Rightarrow> Inl e
      | Inr label_id_raw \<Rightarrow>
     (case py_get restya_label ''color'' (JStr '''') of
        Inl e \<Rightarrow> Inl e
      | Inr color_hex \<Rightarrow>
     (case color_lookup color_hex of
        Inl e \<Rightarrow> Inl e
      | Inr mapped \<Rightarrow>
          (let key = mapped_key mapped in
           case map_of board_labels_dict key of
             None \<Rightarrow>
               (let obj = \<lparr>lb_id = gen_trello_id env label_id_raw, lb_idBoard = board_id,
                           lb_name = snd key, lb_color = fst key, lb_uses = 0\<rparr>
                in Inr (key, obj, board_labels_dict @ [(key, obj)]))
           | Some obj \<Rightarrow> Inr (key, obj, board_labels_dict)))))"

text \<open>Writing through the reference: the object under \<open>key\<close> is replaced in place.\<close>

definition dict_store :: "label_key \<Rightarrow> target_label \<Rightarrow> labels_dict \<Rightarrow> labels_dict" where
  "dict_store key obj d = map (\<lambda>kv. if fst kv = key then (key, obj) else kv) d"

text \<open>Lines 227 to 239, the loop over a card's \<^verbatim>\<open>cards_labels\<close>.\<close>

fun labels_loop ::
  "pyenv \<Rightarrow> string \<Rightarrow> json list \<Rightarrow> labels_dict \<times> string list \<times> target_label list
     \<Rightarrow> error + (labels_dict \<times> string list \<times> target_label list)" where
  "labels_loop env board_id [] st = Inr st"
| "labels_loop env board_id (lb # rest) (d, id_labels, card_labels) =
     (case get_or_create_board_label env board_id d lb of
        Inl e \<Rightarrow> Inl e
      | Inr (key, label_obj, d1) \<Rightarrow>
          (let label_obj' = label_obj\<lparr>lb_uses := lb_uses label_obj + 1\<rparr>;
               d2 = dict_store key label_obj' d1
           in labels_loop env board_id rest
                (d2, id_labels @ [lb_id label_obj'], card_labels @ [label_obj'])))"

subsection \<open>The state of the loops in \<open>main\<close>\<close>

text \<open>The locals of \<open>main\<close> that the loops change, and the number of clock readings
  taken so far.\<close>

record conv_state =
  board_labels_dict :: labels_dict
  card_counter :: int
  lists :: "target_list list"
  cards :: "target_card list"
  checklists_global :: "target_checklist list"
  clock_calls :: nat

definition id_organization :: string where
  "id_organization = ''5b7a154eae8467f69089c4''"

definition id_member_creator :: string where
  "id_member_creator = ''596d59cbd14b2ed4c5909b''"

text \<open>Lines 250 to 263, the loop over a checklist's items; \<open>cii\<close> is the
  \<^verbatim>\<open>enumerate\<close> index.\<close>

fun check_items_loop ::
  "pyenv \<Rightarrow> string \<Rightarrow> int \<Rightarrow> json list \<Rightarrow> target_check_item list
     \<Rightarrow> error + target_check_item list" where
  "check_items_loop env chid cii [] check_items = Inr check_items"
| "check_items_loop env chid cii (ci_item # rest) check_items =
     (case py_getitem ci_item ''id'' of
        Inl e \<Rightarrow> Inl e
      | Inr idv \<Rightarrow>
     (case py_get ci_item ''is_completed'' (JInt 0) of
        Inl e \<Rightarrow> Inl e
      | Inr completed \<Rightarrow>
     (case py_get ci_item ''name'' (JStr '''') of
        Inl e \<Rightarrow> Inl e
      | Inr nm \<Rightarrow>
          check_items_loop env chid (cii + 1) rest
            (check_items @
               [\<lparr>ci_id = gen_trello_id env idv, ci_name = nm, ci_pos = 16384 * cii,
                 ci_state = (if py_eq_1 completed then ''complete'' else ''incomplete''),
                 ci_idChecklist = chid\<rparr>]))))"

text \<open>Lines 247 to 263: the items of one checklist, none when
  \<^verbatim>\<open>ch.get('checklists_items')\<close> is falsy.\<close>

definition checklist_check_items :: "pyenv \<Rightarrow> string \<Rightarrow> json \<Rightarrow> error + target_check_item list" where
  "checklist_check_items env chid ch =
     (case py_get ch ''checklists_items'' JNull of
        Inl e \<Rightarrow> Inl e
      | Inr items \<Rightarrow>
          if truthy items
          then (case py_iter items of
                  Inl e \<Rightarrow> Inl e
                | Inr its \<Rightarrow> check_items_loop env chid 1 its [])
          else Inr [])"

text \<open>Lines 244 to 281, the loop over a card's checklists; the pair carried along is
  \<open>(checklists_global, id_checklists)\<close>.\<close>

fun checklists_loop ::
  "pyenv \<Rightarrow> string \<Rightarrow> string \<Rightarrow> int \<Rightarrow> json list
     \<Rightarrow> target_checklist list \<times> string list
     \<Rightarrow> error + (target_checklist list \<times> string list)" where
  "checklists_loop env board_id card_id ch_i [] st = Inr st"
| "checklists_loop env board_id card_id ch_i (ch # rest) (chk_global, id_checklists) =
     (case py_getitem ch ''id'' of
        Inl e \<Rightarrow> Inl e
      | Inr idv \<Rightarrow>
     (let chid = gen_trello_id env idv in
      case checklist_check_items env chid ch of
        Inl e \<Rightarrow> Inl e
      | Inr check_items \<Rightarrow>
     (case py_get ch ''name'' (JStr '''') of
        Inl e \<Rightarrow> Inl e
      | Inr nm \<Rightarrow>
          checklists_loop env board_id card_id (ch_i + 1) rest
            (chk_global @
               [\<lparr>ch_id = chid, ch_name = py_or nm (JStr ''Checklist''),
                 ch_idBoard = board_id, ch_idCard = card_id, ch_pos = 16384 * ch_i,
                 ch_checkItems = check_items\<rparr>],
             id_checklists @ [chid]))))"

text \<open>Lines 224 to 239: a card's \<open>id_labels\<close> and \<open>card_labels\<close>, and the dictionary
  after them.\<close>

definition card_labels_part ::
  "pyenv \<Rightarrow> string \<Rightarrow> json \<Rightarrow> labels_dict
     \<Rightarrow> error + (labels_dict \<times> string list \<times> target_label list)" where
  "card_labels_part env board_id card_item d =
     (case py_get card_item ''cards_labels'' JNull of
        Inl e \<Rightarrow> Inl e
      | Inr lbs \<Rightarrow>
          if truthy lbs
          then (case py_iter lbs of
                  Inl e \<Rightarrow> Inl e
                | Inr ls \<Rightarrow> labels_loop env board_id ls (d, [], []))
          else Inr (d, [], []))"

text \<open>Lines 242 to 281: a card's \<open>id_checklists\<close>, and \<open>checklists_global\<close> after
  them.\<close>

definition card_checklists_part ::
  "pyenv \<Rightarrow> string \<Rightarrow> string \<Rightarrow> json \<Rightarrow> target_checklist list
     \<Rightarrow> error + (target_checklist list \<times> string list)" where
  "card_checklists_part env board_id card_id card_item chk_global =
     (case py_get card_item ''cards_checklists'' JNull of
        Inl e \<Rightarrow> Inl e
      | Inr chs \<Rightarrow>
          if truthy chs
          then (case py_iter chs of
                  Inl e \<Rightarrow> Inl e
                | Inr cs \<Rightarrow> checklists_loop env board_id card_id 1 cs (chk_global, []))
          else Inr (chk_global, []))"

text \<open>Lines 218 to 324, the body of the loop over a list's cards.\<close>

definition convert_card ::
  "pyenv \<Rightarrow> string \<Rightarrow> string \<Rightarrow> int \<Rightarrow> int \<Rightarrow> json \<Rightarrow> conv_state \<Rightarrow> error + conv_state" where
  "convert_card env board_id list_id list_pos ci card_item st =
     (case py_getitem card_item ''id'' of
        Inl e \<Rightarrow> Inl e
      | Inr idv \<Rightarrow>
     (let card_id = gen_trello_id env idv;
          cpos = list_pos + ci * 16384
      in
      case py_get card_item ''description'' (JStr '''') of
        Inl e \<Rightarrow> Inl e
      | Inr d \<Rightarrow>
     (let desc = py_or d (JStr '''') in
      case py_get card_item ''due_date'' JNull of
        Inl e \<Rightarrow> Inl e
      | Inr due_raw \<Rightarrow>
     (case normalize_due due_raw of
        Inl e \<Rightarrow> Inl e
      | Inr due_value \<Rightarrow>
     (case card_labels_part env board_id card_item (board_labels_dict st) of
        Inl e \<Rightarrow> Inl e
      | Inr (dict', id_labels, card_labels) \<Rightarrow>
     (case card_checklists_part env board_id card_id card_item (checklists_global st) of
        Inl e \<Rightarrow> Inl e
      | Inr (chk_global', id_checklists) \<Rightarrow>
     (let card_short_link = gen_short_link env card_id in
      case py_get card_item ''name'' (JStr '''') of
        Inl e \<Rightarrow> Inl e
      | Inr nm \<Rightarrow>
     (case py_get card_item ''is_archived'' (JInt 0) of
        Inl e \<Rightarrow> Inl e
      | Inr archived \<Rightarrow>
          Inr (st\<lparr>board_labels_dict := dict',
                  checklists_global := chk_global',
                  cards := cards st @
                    [\<lparr>cd_id = card_id, cd_name = py_or nm (JStr ''''), cd_desc = desc,
                      cd_closed = py_eq_1 archived, cd_idBoard = board_id,
                      cd_idList = list_id, cd_pos = cpos, cd_idShort = card_counter st,
                      cd_shortLink = card_short_link, cd_idLabels = id_labels,
                      cd_labels = card_labels, cd_idChecklists = id_checklists,
                      cd_due = due_value,
                      cd_dateLastActivity = utcnow_isoformat env (clock_calls st) @ ''Z'',
                      cd_idOrganization = id_organization\<rparr>],
                  card_counter := card_counter st + 1,
                  clock_calls := Suc (clock_calls st)\<rparr>)))))))))"

text \<open>Line 217, the loop over a list's cards.\<close>

fun cards_loop ::
  "pyenv \<Rightarrow> string \<Rightarrow> string \<Rightarrow> int \<Rightarrow> int \<Rightarrow> json list \<Rightarrow> conv_state \<Rightarrow> error + conv_state" where
  "cards_loop env board_id list_id list_pos ci [] st = Inr st"
| "cards_loop env board_id list_id list_pos ci (card_item # rest) st =
     (case convert_card env board_id list_id list_pos ci card_item st of
        Inl e \<Rightarrow> Inl e
      | Inr st' \<Rightarrow> cards_loop env board_id list_id list_pos (ci + 1) rest st')"

text \<open>Lines 203 to 217, the body of the loop over the sorted lists.\<close>

definition convert_list ::
  "pyenv \<Rightarrow> string \<Rightarrow> int \<Rightarrow> json \<Rightarrow> conv_state \<Rightarrow> error + conv_state" where
  "convert_list env board_id li list_item st =
     (case py_getitem list_item ''id'' of
        Inl e \<Rightarrow> Inl e
      | Inr idv \<Rightarrow>
     (let list_id = gen_trello_id env idv;
          list_pos = 16384 * li
      in
      case py_get list_item ''name'' (JStr '''') of
        Inl e \<Rightarrow> Inl e
      | Inr nm \<Rightarrow>
     (case py_get list_item ''is_archived'' (JInt 0) of
        Inl e \<Rightarrow> Inl e
      | Inr archived \<Rightarrow>
     (let st1 = st\<lparr>lists := lists st @
                   [\<lparr>ls_id = list_id, ls_name = py_or nm (JStr ''''),
                     ls_closed = py_eq_1 archived, ls_idBoard = board_id,
                     ls_pos = list_pos, ls_idOrganization = id_organization\<rparr>]\<rparr>
      in
      case py_get list_item ''cards'' JNull of
        Inl e \<Rightarrow> Inl e
      | Inr cs \<Rightarrow>
     (case py_iter (py_or cs (JArr [])) of
        Inl e \<Rightarrow> Inl e
      | Inr cards_data \<Rightarrow> cards_loop env board_id list_id list_pos 1 cards_data st1)))))"

text \<open>Line 202, the loop over the sorted lists.\<close>

fun lists_loop ::
  "pyenv \<Rightarrow> string \<Rightarrow> int \<Rightarrow> json list \<Rightarrow> conv_state \<Rightarrow> error + conv_state" where
  "lists_loop env board_id li [] st = Inr st"
| "lists_loop env board_id li (list_item # rest) st =
     (case convert_list env board_id li list_item st of
        Inl e \<Rightarrow> Inl e
      | Inr st' \<Rightarrow> lists_loop env board_id (li + 1) rest st')"

subsection \<open>Sorting the lists by position (lines 186 to 189)\<close>

text \<open>
  \<^verbatim>\<open>sorted\<close> first applies the key function to every element, in order, and then
  compares keys only. Ints and bools compare as numbers, strs by code point (which is
  the byte order of their UTF-8 form); any other pair of keys raises \<^verbatim>\<open>TypeError\<close>,
  and with two or more elements every key takes part in a comparison. Keys that are
  all arrays may or may not compare: that case is \<open>NotModelled\<close>. The sort is stable,
  as \<open>sort_key\<close> is.
\<close>

fun position_keys :: "json list \<Rightarrow> error + json list" where
  "position_keys [] = Inr []"
| "position_keys (x # xs) =
     (case py_get x ''position'' (JInt 0) of
        Inl e \<Rightarrow> Inl e
      | Inr k \<Rightarrow>
     (case position_keys xs of
        Inl e \<Rightarrow> Inl e
      | Inr ks \<Rightarrow> Inr (k # ks)))"

text \<open>The key of one element, \<^verbatim>\<open>x.get("position", 0)\<close>, where it is defined.\<close>

definition position_of :: "json \<Rightarrow> json" where
  "position_of x = (case py_get x ''position'' (JInt 0) of Inl e \<Rightarrow> JInt 0 | Inr k \<Rightarrow> k)"

fun is_num :: "json \<Rightarrow> bool" where
  "is_num (JInt n) = True"
| "is_num (JBool b) = True"
| "is_num _ = False"

fun num_of :: "json \<Rightarrow> int" where
  "num_of (JInt n) = n"
| "num_of (JBool b) = (if b then 1 else 0)"
| "num_of _ = 0"

fun is_str :: "json \<Rightarrow> bool" where
  "is_str (JStr s) = True"
| "is_str _ = False"

fun str_of :: "json \<Rightarrow> string" where
  "str_of (JStr s) = s"
| "str_of _ = []"

fun is_arr :: "json \<Rightarrow> bool" where
  "is_arr (JArr xs) = True"
| "is_arr _ = False"

definition py_sorted_by_position :: "json list \<Rightarrow> error + json list" where
  "py_sorted_by_position data =
     (case position_keys data of
        Inl e \<Rightarrow> Inl e
      | Inr keys \<Rightarrow>
          if length data \<le> 1 then Inr data
          else if list_all is_num keys
            then Inr (sort_key (\<lambda>x. num_of (position_of x)) data)
          else if list_all is_str keys
            then Inr (sort_key (\<lambda>x. str_of (position_of x)) data)
          else if list_all is_arr keys then Inl NotModelled
          else Inl TypeError)"


subsection \<open>\<open>main\<close>: from the parsed input to the export that is written\<close>

definition empty_board :: "pyenv \<Rightarrow> trello_board" where
  "empty_board env =
     \<lparr>b_id = gen_trello_id env (JInt 12345), b_nodeId = None, b_name = ''TrelloBoard'',
      b_idOrganization = ''5b7a154eae842267f69089c4'',
      b_url = ''https://trello.com/b/ABCDEFGH/TrelloBoard'', b_shortLink = ''ABCDEFGH'',
      b_dateLastActivity = None, b_dateLastView = None, b_idMemberCreator = None,
      b_cards = [], b_labels = [], b_lists = [], b_checklists = [],
      b_membership_ids = []\<rparr>"

definition init_state :: conv_state where
  "init_state =
     \<lparr>board_labels_dict = [], card_counter = 1, lists = [], cards = [],
      checklists_global = [], clock_calls = 0\<rparr>"

definition assemble :: "pyenv \<Rightarrow> string \<Rightarrow> conv_state \<Rightarrow> trello_board" where
  "assemble env board_id st =
     \<lparr>b_id = board_id,
      b_nodeId = Some (''ari:cloud:trello::board/workspace/'' @ id_organization @ ''/'' @ board_id),
      b_name = ''RestyaBoard'',
      b_idOrganization = id_organization,
      b_url = ''https://trello.com/b/CJYpRTwW/xxx'', b_shortLink = ''CJYpRTwW'',
      b_dateLastActivity = Some (utcnow_isoformat env (clock_calls st) @ ''Z''),
      b_dateLastView = Some (utcnow_isoformat env (Suc (clock_calls st)) @ ''Z''),
      b_idMemberCreator = Some id_member_creator,
      b_cards = cards st,
      b_labels = map snd (board_labels_dict st),
      b_lists = lists st,
      b_checklists = checklists_global st,
      b_membership_ids = [gen_trello_id env (JStr ''boardmember'')]\<rparr>"

text \<open>\<open>main\<close> after \<^verbatim>\<open>json.load\<close>: the value is what \<^verbatim>\<open>json.dump\<close> then writes; an
  error is an exception that leaves \<open>main\<close> before any file is written.\<close>

definition main :: "pyenv \<Rightarrow> json \<Rightarrow> error + trello_board" where
  "main env restya_data =
     (case py_get restya_data ''data'' JNull of
        Inl e \<Rightarrow> Inl e
      | Inr data \<Rightarrow>
          if \<not> truthy data then Inr (empty_board env)
          else
     (case py_index0 data of
        Inl e \<Rightarrow> Inl e
      | Inr first_list \<Rightarrow>
     (case py_get first_list ''board_id'' (JInt 12345) of
        Inl e \<Rightarrow> Inl e
      | Inr board_id_num \<Rightarrow>
     (let board_id = gen_trello_id env board_id_num in
      case py_iter data of
        Inl e \<Rightarrow> Inl e
      | Inr data_lists \<Rightarrow>
     (case py_sorted_by_position data_lists of
        Inl e \<Rightarrow> Inl e
      | Inr data_lists_sorted \<Rightarrow>
     (case lists_loop env board_id 1 data_lists_sorted init_state of
        Inl e \<Rightarrow> Inl e
      | Inr st \<Rightarrow> Inr (assemble env board_id st)))))))"

subsection \<open>The source document as the loops read it\<close>

text \<open>What each loop of \<open>main\<close> runs over, as a function of the record it is
  taken from (the empty list where \<open>main\<close> raises instead).\<close>

definition input_lists :: "json \<Rightarrow> json list" where
  "input_lists restya_data =
     (case py_get restya_data ''data'' JNull of
        Inl e \<Rightarrow> []
      | Inr data \<Rightarrow>
          if truthy data then (case py_iter data of Inl e \<Rightarrow> [] | Inr xs \<Rightarrow> xs) else [])"

definition list_cards :: "json \<Rightarrow> json list" where
  "list_cards list_item =
     (case py_get list_item ''cards'' JNull of
        Inl e \<Rightarrow> []
      | Inr cs \<Rightarrow> (case py_iter (py_or cs (JArr [])) of Inl e \<Rightarrow> [] | Inr xs \<Rightarrow> xs))"

definition card_label_refs :: "json \<Rightarrow> json list" where
  "card_label_refs card_item =
     (case py_get card_item ''cards_labels'' JNull of
        Inl e \<Rightarrow> []
      | Inr lbs \<Rightarrow>
          if truthy lbs then (case py_iter lbs of Inl e \<Rightarrow> [] | Inr xs \<Rightarrow> xs) else [])"

definition card_checklists :: "json \<Rightarrow> json list" where
  "card_checklists card_item =
     (case py_get card_item ''cards_checklists'' JNull of
        Inl e \<Rightarrow> []
      | Inr chs \<Rightarrow>
          if truthy chs then (case py_iter chs of Inl e \<Rightarrow> [] | Inr xs \<Rightarrow> xs) else [])"

definition checklist_items :: "json \<Rightarrow> json list" where
  "checklist_items ch =
     (case py_get ch ''checklists_items'' JNull of
        Inl e \<Rightarrow> []
      | Inr items \<Rightarrow>
          if truthy items then (case py_iter items of Inl e \<Rightarrow> [] | Inr xs \<Rightarrow> xs) else [])"

text \<open>\<^verbatim>\<open>gen_trello_id(x['id'])\<close> of a list, card, checklist or check-item.\<close>

definition source_id :: "pyenv \<Rightarrow> json \<Rightarrow> string" where
  "source_id env x = (case py_getitem x ''id'' of Inl e \<Rightarrow> [] | Inr v \<Rightarrow> gen_trello_id env v)"

text \<open>The dictionary key a source label resolves to, and the id a label created for it
  gets (lines 161 to 175).\<close>

definition label_key_of :: "json \<Rightarrow> label_key" where
  "label_key_of restya_label =
     (case py_get restya_label ''color'' (JStr '''') of
        Inl e \<Rightarrow> mapped_key None
      | Inr color_hex \<Rightarrow>
          (case color_lookup color_hex of Inl e \<Rightarrow> mapped_key None | Inr m \<Rightarrow> mapped_key m))"

definition label_id_of :: "pyenv \<Rightarrow> json \<Rightarrow> string" where
  "label_id_of env restya_label =
     (case py_get restya_label ''id'' (JStr ''unknownLabel'') of
        Inl e \<Rightarrow> []
      | Inr label_id_raw \<Rightarrow> gen_trello_id env label_id_raw)"

text \<open>Every label reference of the board, in the order the loops meet them.\<close>

definition all_label_refs :: "json list \<Rightarrow> json list" where
  "all_label_refs data_lists_sorted =
     concat (map card_label_refs (concat (map list_cards data_lists_sorted)))"

text \<open>The \<open>uses\<close> counter stored under a key (0 when the key is not there yet).\<close>

definition uses_of :: "labels_dict \<Rightarrow> label_key \<Rightarrow> int" where
  "uses_of d key = (case map_of d key of None \<Rightarrow> 0 | Some obj \<Rightarrow> lb_uses obj)"

text \<open>Every object in the dictionary carries the colour and name of its key.\<close>

definition dict_ok :: "labels_dict \<Rightarrow> bool" where
  "dict_ok d = list_all (\<lambda>kv. (lb_color (snd kv), lb_name (snd kv)) = fst kv) d"

text \<open>The dictionary after one reference to a source label that resolves (lines 228
  and 229): a first reference to a key appends the new object, already counted once;
  a later one adds one to the stored counter.\<close>

definition label_step :: "pyenv \<Rightarrow> string \<Rightarrow> labels_dict \<Rightarrow> json \<Rightarrow> labels_dict" where
  "label_step env board_id d restya_label =
     (let key = label_key_of restya_label in
      case map_of d key of
        None \<Rightarrow>
          d @ [(key, \<lparr>lb_id = label_id_of env restya_label, lb_idBoard = board_id,
                      lb_name = snd key, lb_color = fst key, lb_uses = 1\<rparr>)]
      | Some obj \<Rightarrow> dict_store key (obj\<lparr>lb_uses := lb_uses obj + 1\<rparr>) d)"

text \<open>\<open>data_lists_sorted\<close> of \<open>main\<close>, as a function of the input.\<close>

definition data_lists_sorted :: "json \<Rightarrow> json list" where
  "data_lists_sorted restya_data =
     (case py_sorted_by_position (input_lists restya_data) of Inl e \<Rightarrow> [] | Inr xs \<Rightarrow> xs)"

subsection \<open>Masking timestamps\<close>

definition mask_board_timestamps :: "trello_board \<Rightarrow> trello_board" where
  "mask_board_timestamps b = b\<lparr>b_dateLastActivity := None, b_dateLastView := None\<rparr>"

definition mask_card_timestamp :: "target_card \<Rightarrow> target_card" where
  "mask_card_timestamp c = c\<lparr>cd_dateLastActivity := []\<rparr>"

definition mask_all_timestamps :: "trello_board \<Rightarrow> trello_board" where
  "mask_all_timestamps b =
     (mask_board_timestamps b)\<lparr>b_cards := map mask_card_timestamp (b_cards b)\<rparr>"

text \<open>The state of the loops with the timestamp of every card so far masked.\<close>

definition mask_state :: "conv_state \<Rightarrow> conv_state" where
  "mask_state st = st\<lparr>cards := map mask_card_timestamp (cards st)\<rparr>"

subsection \<open>Shape of the input, and presence of identifiers\<close>

text \<open>An input of the documented shape: records are objects, collections are arrays
  (or absent, or falsy), a due date is a string (or absent, or falsy), a label colour is
  not a list or dict, list positions are integers (or absent).\<close>

definition is_obj :: "json \<Rightarrow> bool" where
  "is_obj x = (case x of JObj kvs \<Rightarrow> True | _ \<Rightarrow> False)"

definition field :: "json \<Rightarrow> string \<Rightarrow> json" where
  "field x k = (case py_get x k JNull of Inl e \<Rightarrow> JNull | Inr v \<Rightarrow> v)"

definition array_of :: "(json \<Rightarrow> bool) \<Rightarrow> json \<Rightarrow> bool" where
  "array_of P v = (\<not> truthy v \<or> (case v of JArr xs \<Rightarrow> list_all P xs | _ \<Rightarrow> False))"

definition shaped_label :: "json \<Rightarrow> bool" where
  "shaped_label lb = (is_obj lb \<and> \<not> is_arr (field lb ''color'') \<and> \<not> is_obj (field lb ''color''))"

definition shaped_checklist :: "json \<Rightarrow> bool" where
  "shaped_checklist ch = (is_obj ch \<and> array_of is_obj (field ch ''checklists_items''))"

definition shaped_card :: "json \<Rightarrow> bool" where
  "shaped_card c =
     (is_obj c \<and> (\<not> truthy (field c ''due_date'') \<or> is_str (field c ''due_date''))
      \<and> array_of shaped_label (field c ''cards_labels'')
      \<and> array_of shaped_checklist (field c ''cards_checklists''))"

definition shaped_list :: "json \<Rightarrow> bool" where
  "shaped_list l =
     (is_obj l \<and> is_num (position_of l) \<and> array_of shaped_card (field l ''cards''))"

definition shaped_input :: "json \<Rightarrow> bool" where
  "shaped_input restya_data =
     (is_obj restya_data \<and> array_of shaped_list (field restya_data ''data''))"

definition has_id :: "json \<Rightarrow> bool" where
  "has_id x = (case py_getitem x ''id'' of Inl e \<Rightarrow> False | Inr v \<Rightarrow> True)"

definition checklist_has_ids :: "json \<Rightarrow> bool" where
  "checklist_has_ids ch = (has_id ch \<and> list_all has_id (checklist_items ch))"

definition card_has_ids :: "json \<Rightarrow> bool" where
  "card_has_ids c = (has_id c \<and> list_all checklist_has_ids (card_checklists c))"

definition list_has_ids :: "json \<Rightarrow> bool" where
  "list_has_ids l = (has_id l \<and> list_all card_has_ids (list_cards l))"

text \<open>Every list, card, checklist and check-item has its \<open>id\<close>.\<close>

definition all_have_ids :: "json \<Rightarrow> bool" where
  "all_have_ids restya_data = list_all list_has_ids (input_lists restya_data)"

text \<open>Every list and every card has its \<open>id\<close>.\<close>

definition lists_and_cards_have_ids :: "json \<Rightarrow> bool" where
  "lists_and_cards_have_ids restya_data =
     list_all (\<lambda>l. has_id l \<and> list_all has_id (list_cards l)) (input_lists restya_data)"

subsection \<open>An environment for evaluating examples\<close>

text \<open>For concrete runs the digest is stood in for by padding its argument with zeros
  to 32 characters; the examples below do not depend on the digits of a digest.\<close>

definition test_env :: pyenv where
  "test_env =
     \<lparr>md5_hexdigest = (\<lambda>s. take 32 (s @ ''00000000000000000000000000000000'')),
      repr_compound = (\<lambda>v. ''[...]''),
      utcnow_isoformat = (\<lambda>n. ''2024-01-01T00:00:00'')\<rparr>"

subsection \<open>An example board\<close>

text \<open>Two lists given out of position order, three cards, two references to the same
  palette colour, one checklist with one item; and the export \<open>main\<close> produces for it
  in \<open>test_env\<close>.\<close>

definition sample_input :: json where
  "sample_input =
     JObj [(''data'', JArr
       [JObj [(''id'', JInt 2), (''name'', JStr ''Doing''), (''position'', JInt 2),
              (''cards'', JArr
                [JObj [(''id'', JInt 21), (''name'', JStr ''Task C''),
                       (''cards_labels'', JArr [JObj [(''id'', JInt 6), (''color'', JStr ''#ffce54'')]])]])],
        JObj [(''id'', JInt 1), (''name'', JStr ''To Do''), (''position'', JInt 1),
              (''cards'', JArr
                [JObj [(''id'', JInt 11), (''name'', JStr ''Task A''),
                       (''cards_labels'', JArr [JObj [(''id'', JInt 5), (''color'', JStr ''#ffce54'')]]),
                       (''cards_checklists'', JArr
                          [JObj [(''id'', JInt 7), (''name'', JStr ''Steps''),
                                 (''checklists_items'', JArr
                                    [JObj [(''id'', JInt 8), (''name'', JStr ''one''),
                                           (''is_completed'', JInt 0)]])]])],
                 JObj [(''id'', JInt 12), (''name'', JStr ''Task B''),
                       (''due_date'', JStr ''2024-05-01T10:00:00'')]])]])]"

definition sample_label :: "int \<Rightarrow> target_label" where
  "sample_label n =
     \<lparr>lb_id = ''500000000000000000000000'', lb_idBoard = ''123450000000000000000000'',
      lb_name = ''WARNING'', lb_color = ''orange'', lb_uses = n\<rparr>"

definition sample_cards :: "string \<Rightarrow> target_card list" where
  "sample_cards stamp =
     [\<lparr>cd_id = ''110000000000000000000000'', cd_name = JStr ''Task A'', cd_desc = JStr [],
       cd_closed = False, cd_idBoard = ''123450000000000000000000'',
       cd_idList = ''100000000000000000000000'', cd_pos = 32768, cd_idShort = 1,
       cd_shortLink = ''11000000'', cd_idLabels = [''500000000000000000000000''],
       cd_labels = [sample_label 1], cd_idChecklists = [''700000000000000000000000''],
       cd_due = JNull, cd_dateLastActivity = stamp,
       cd_idOrganization = ''5b7a154eae8467f69089c4''\<rparr>,
      \<lparr>cd_id = ''120000000000000000000000'', cd_name = JStr ''Task B'', cd_desc = JStr [],
       cd_closed = False, cd_idBoard = ''123450000000000000000000'',
       cd_idList = ''100000000000000000000000'', cd_pos = 49152, cd_idShort = 2,
       cd_shortLink = ''12000000'', cd_idLabels = [], cd_labels = [], cd_idChecklists = [],
       cd_due = JStr ''2024-05-01T10:00:00Z'', cd_dateLastActivity = stamp,
       cd_idOrganization = ''5b7a154eae8467f69089c4''\<rparr>,
      \<lparr>cd_id = ''210000000000000000000000'', cd_name = JStr ''Task C'', cd_desc = JStr [],
       cd_closed = False, cd_idBoard = ''123450000000000000000000'',
       cd_idList = ''200000000000000000000000'', cd_pos = 49152, cd_idShort = 3,
       cd_shortLink = ''21000000'', cd_idLabels = [''500000000000000000000000''],
       cd_labels = [sample_label 2], cd_idChecklists = [],
       cd_due = JNull, cd_dateLastActivity = stamp,
       cd_idOrganization = ''5b7a154eae8467f69089c4''\<rparr>]"

definition sample_output :: "string \<Rightarrow> trello_board" where
  "sample_output stamp =
     \<lparr>b_id = ''123450000000000000000000'',
      b_nodeId = Some ''ari:cloud:trello::board/workspace/5b7a154eae8467f69089c4/123450000000000000000000'',
      b_name = ''RestyaBoard'', b_idOrganization = ''5b7a154eae8467f69089c4'',
      b_url = ''https://trello.com/b/CJYpRTwW/xxx'', b_shortLink = ''CJYpRTwW'',
      b_dateLastActivity = Some stamp, b_dateLastView = Some stamp,
      b_idMemberCreator = Some ''596d59cbd14b2ed4c5909b'',
      b_cards = sample_cards stamp,
      b_labels = [sample_label 2],
      b_lists =
        [\<lparr>ls_id = ''100000000000000000000000'', ls_name = JStr ''To Do'', ls_closed = False,
          ls_idBoard = ''123450000000000000000000'', ls_pos = 16384,
          ls_idOrganization = ''5b7a154eae8467f69089c4''\<rparr>,
         \<lparr>ls_id = ''200000000000000000000000'', ls_name = JStr ''Doing'', ls_closed = False,
          ls_idBoard = ''123450000000000000000000'', ls_pos = 32768,
          ls_idOrganization = ''5b7a154eae8467f69089c4''\<rparr>],
      b_checklists =
        [\<lparr>ch_id = ''700000000000000000000000'', ch_name = JStr ''Steps'',
          ch_idBoard = ''123450000000000000000000'', ch_idCard = ''110000000000000000000000'',
          ch_pos = 16384,
          ch_checkItems =
            [\<lparr>ci_id = ''800000000000000000000000'', ci_name = JStr ''one'', ci_pos = 16384,
              ci_state = ''incomplete'', ci_idChecklist = ''700000000000000000000000''\<rparr>]\<rparr>],
      b_membership_ids = [''boardmember0000000000000'']\<rparr>"

text \<open>The same environment with another clock.\<close>

definition test_env_later :: pyenv where
  "test_env_later = test_env\<lparr>utcnow_isoformat := (\<lambda>n. ''2025-06-30T12:00:00'')\<rparr>"

section \<open>Properties\<close>

subsection \<open>Basic facts about the Python operations\<close>

lemmas eval_defs =
  convert_card_def convert_list_def init_state_def test_env_def gen_trello_id_def
  gen_short_link_def normalize_due_def card_labels_part_def card_checklists_part_def
  checklist_check_items_def get_or_create_board_label_def mapped_key_def dict_store_def
  COLOR_MAPPING_def str_int_def str_nat.simps digit_char_def py_or_def id_organization_def
  id_member_creator_def Let_def endswith_def

lemma py_getitem_Inr:
  "py_getitem x k = Inr v \<Longrightarrow> \<exists>kvs. x = JObj kvs \<and> map_of kvs k = Some v"
  by (cases x) (auto split: option.splits)

lemma py_get_Inr: "py_get x k d = Inr v \<Longrightarrow> \<exists>kvs. x = JObj kvs"
  by (cases x) auto

subsection \<open>The label dictionary along a list of references\<close>

lemma dict_store_absent: "map_of d key = None \<Longrightarrow> dict_store key obj d = d"
  by (induction d) (auto simp: dict_store_def split: if_splits)

lemma dict_store_append:
  "dict_store key obj (xs @ ys) = dict_store key obj xs @ dict_store key obj ys"
  by (simp add: dict_store_def)

lemma dict_store_single: "dict_store key obj [(key, x)] = [(key, obj)]"
  by (simp add: dict_store_def)

lemma dict_store_keys: "map fst (dict_store key obj d) = map fst d"
  by (induction d) (auto simp: dict_store_def)

lemma map_of_dict_store:
  "map_of (dict_store key obj d) k = (if k = key \<and> map_of d key \<noteq> None then Some obj else map_of d k)"
  by (induction d) (auto simp: dict_store_def)

lemma in_keys_iff: "k \<in> fst ` set d \<longleftrightarrow> map_of d k \<noteq> None"
  by (simp add: map_of_eq_None_iff)

lemma get_or_create_obj:
  assumes "get_or_create_board_label env board_id d (JObj kvs) = Inr (key, obj, d1)"
  shows "key = label_key_of (JObj kvs)"
    and "dict_store (label_key_of (JObj kvs)) (obj\<lparr>lb_uses := lb_uses obj + 1\<rparr>) d1
           = label_step env board_id d (JObj kvs)"
    and "map_of d1 (label_key_of (JObj kvs)) = Some obj"
    and "map_of d (label_key_of (JObj kvs)) = None \<Longrightarrow>
           obj = \<lparr>lb_id = label_id_of env (JObj kvs), lb_idBoard = board_id,
                  lb_name = snd (label_key_of (JObj kvs)),
                  lb_color = fst (label_key_of (JObj kvs)), lb_uses = 0\<rparr>"
    and "map_of d (label_key_of (JObj kvs)) = Some obj' \<Longrightarrow> obj = obj'"
proof -
  define col where "col = (case map_of kvs ''color'' of None \<Rightarrow> JStr [] | Some v \<Rightarrow> v)"
  from assms obtain mapped where m: "color_lookup col = Inr mapped"
    by (auto simp: get_or_create_board_label_def col_def split: sum.splits)
  have kk: "label_key_of (JObj kvs) = mapped_key mapped"
    by (simp add: label_key_of_def m col_def[symmetric])
  define obj0 where "obj0 = \<lparr>lb_id = label_id_of env (JObj kvs), lb_idBoard = board_id,
       lb_name = snd (mapped_key mapped), lb_color = fst (mapped_key mapped), lb_uses = 0\<rparr>"
  have r: "(case map_of d (mapped_key mapped) of
              None \<Rightarrow> Inr (mapped_key mapped, obj0, d @ [(mapped_key mapped, obj0)])
            | Some ob \<Rightarrow> Inr (mapped_key mapped, ob, d)) = Inr (key, obj, d1)"
    using assms
    by (cases "map_of d (mapped_key mapped)")
       (auto simp add: get_or_create_board_label_def m col_def[symmetric] obj0_def
                  label_id_of_def Let_def)
  show "key = label_key_of (JObj kvs)" using r by (auto simp: kk split: option.splits)
  show "map_of d1 (label_key_of (JObj kvs)) = Some obj"
    using r by (auto simp: kk map_add_def split: option.splits)
  show "map_of d (label_key_of (JObj kvs)) = None \<Longrightarrow>
           obj = \<lparr>lb_id = label_id_of env (JObj kvs), lb_idBoard = board_id,
                  lb_name = snd (label_key_of (JObj kvs)),
                  lb_color = fst (label_key_of (JObj kvs)), lb_uses = 0\<rparr>"
    using r by (auto simp: obj0_def kk)
  show "map_of d (label_key_of (JObj kvs)) = Some obj' \<Longrightarrow> obj = obj'"
    using r by (auto simp: kk)
  show "dict_store (label_key_of (JObj kvs)) (obj\<lparr>lb_uses := lb_uses obj + 1\<rparr>) d1
           = label_step env board_id d (JObj kvs)"
  proof (cases "map_of d (mapped_key mapped)")
    case None
    with r have "obj = obj0" "d1 = d @ [(mapped_key mapped, obj0)]" by auto
    then show ?thesis
      by (simp add: label_step_def kk None dict_store_append dict_store_single
                    dict_store_absent[OF None] obj0_def Let_def)
  next
    case (Some ob)
    with r have "obj = ob" "d1 = d" by auto
    then show ?thesis by (simp add: label_step_def kk Some Let_def)
  qed
qed

lemma get_or_create_is_obj:
  assumes "get_or_create_board_label env board_id d lb = Inr r"
  shows "is_obj lb"
proof -
  from assms obtain v where "py_get lb ''id'' (JStr ''unknownLabel'') = Inr v"
    by (auto simp: get_or_create_board_label_def split: sum.splits)
  then obtain kvs where "lb = JObj kvs" using py_get_Inr by blast
  then show ?thesis by (simp add: is_obj_def)
qed

lemma labels_loop_Inr:
  "labels_loop env board_id refs (d, ids, cls) = Inr (d', ids', cls') \<Longrightarrow>
     d' = foldl (label_step env board_id) d refs \<and> list_all is_obj refs"
proof (induction refs arbitrary: d ids cls)
  case Nil
  then show ?case by simp
next
  case (Cons lb refs)
  from Cons.prems obtain key obj d1 where
    g: "get_or_create_board_label env board_id d lb = Inr (key, obj, d1)"
    by (auto split: sum.splits)
  from get_or_create_is_obj[OF g] obtain kvs where k: "lb = JObj kvs"
    by (auto simp: is_obj_def split: json.splits)
  note i = get_or_create_obj[OF g[unfolded k]]
  from Cons.prems g have
    "labels_loop env board_id refs
       (dict_store (label_key_of lb) (obj\<lparr>lb_uses := lb_uses obj + 1\<rparr>) d1,
        ids @ [lb_id obj], cls @ [obj\<lparr>lb_uses := lb_uses obj + 1\<rparr>]) = Inr (d', ids', cls')"
    by (simp add: Let_def i(1) k)
  from Cons.IH[OF this] i(2) show ?case by (simp add: k is_obj_def)
qed

lemma label_step_keys:
  "map fst (label_step env board_id d lb) =
     (if label_key_of lb \<in> fst ` set d then map fst d else map fst d @ [label_key_of lb])"
  by (cases "map_of d (label_key_of lb)")
     (simp_all add: label_step_def Let_def dict_store_keys in_keys_iff)

lemma foldl_label_step_keys:
  "distinct (map fst d) \<Longrightarrow>
     distinct (map fst (foldl (label_step env board_id) d refs))
   \<and> fst ` set (foldl (label_step env board_id) d refs) = fst ` set d \<union> label_key_of ` set refs"
proof (induction refs arbitrary: d)
  case Nil
  then show ?case by simp
next
  case (Cons lb refs)
  have d1: "distinct (map fst (label_step env board_id d lb))"
    using Cons.prems by (simp add: label_step_keys)
  have s1: "fst ` set (label_step env board_id d lb) = insert (label_key_of lb) (fst ` set d)"
    using label_step_keys[of env board_id d lb]
    by (metis (no_types, lifting) insert_absorb list.set_map list.simps(15) set_append
          Un_insert_right sup_bot.right_neutral empty_set)
  from Cons.IH[OF d1] show ?case
    by (simp add: s1)
qed

lemma uses_of_label_step:
  "uses_of (label_step env board_id d lb) k = uses_of d k + (if label_key_of lb = k then 1 else 0)"
  by (cases "map_of d (label_key_of lb)")
     (auto simp: label_step_def Let_def uses_of_def map_of_dict_store split: option.splits)

lemma uses_of_foldl:
  "uses_of (foldl (label_step env board_id) d refs) k
     = uses_of d k + int (length (filter (\<lambda>r. label_key_of r = k) refs))"
  by (induction refs arbitrary: d) (simp_all add: uses_of_label_step)

lemma dict_ok_label_step:
  assumes "dict_ok d"
  shows "dict_ok (label_step env board_id d lb)"
proof (cases "map_of d (label_key_of lb)")
  case None
  then show ?thesis using assms by (simp add: label_step_def Let_def dict_ok_def)
next
  case (Some ob)
  then have "(label_key_of lb, ob) \<in> set d" by (rule map_of_SomeD)
  with assms have "(lb_color ob, lb_name ob) = label_key_of lb"
    by (auto simp: dict_ok_def list_all_iff)
  then show ?thesis
    using assms by (auto simp: label_step_def Let_def Some dict_ok_def dict_store_def list_all_iff)
qed

lemma dict_ok_foldl: "dict_ok d \<Longrightarrow> dict_ok (foldl (label_step env board_id) d refs)"
  by (induction refs arbitrary: d) (simp_all add: dict_ok_label_step)

lemma id_label_step:
  "map_option lb_id (map_of (label_step env board_id d lb) k) =
     (case map_of d k of
        Some ob \<Rightarrow> Some (lb_id ob)
      | None \<Rightarrow> if label_key_of lb = k then Some (label_id_of env lb) else None)"
  by (cases "map_of d (label_key_of lb)")
     (auto simp: label_step_def Let_def map_of_dict_store map_add_def split: option.splits)

lemma id_foldl:
  "map_option lb_id (map_of (foldl (label_step env board_id) d refs) k) =
     (case map_of d k of
        Some ob \<Rightarrow> Some (lb_id ob)
      | None \<Rightarrow> map_option (label_id_of env) (find (\<lambda>r. label_key_of r = k) refs))"
proof (induction refs arbitrary: d)
  case Nil
  then show ?case by (simp split: option.splits)
next
  case (Cons lb refs)
  show ?case
    using id_label_step[of env board_id d lb k]
    by (auto simp: Cons.IH split: option.splits)
qed

subsection \<open>One card\<close>

text \<open>What a card that converts leaves behind: the card is a dict with an \<open>id\<close>, its
  due date normalises, its labels and checklists convert, and exactly one card is
  appended.\<close>

lemma convert_card_Inr:
  assumes "convert_card env board_id list_id list_pos ci card_item st = Inr st'"
  shows "\<exists>kvs idv due dict' idl cl chk' idc.
           card_item = JObj kvs \<and> map_of kvs ''id'' = Some idv
         \<and> normalize_due (field card_item ''due_date'') = Inr due
         \<and> card_labels_part env board_id card_item (board_labels_dict st) = Inr (dict', idl, cl)
         \<and> card_checklists_part env board_id (gen_trello_id env idv) card_item
               (checklists_global st) = Inr (chk', idc)
         \<and> st' = st\<lparr>board_labels_dict := dict', checklists_global := chk',
               cards := cards st @
                 [\<lparr>cd_id = gen_trello_id env idv,
                   cd_name = py_or (case map_of kvs ''name'' of None \<Rightarrow> JStr [] | Some v \<Rightarrow> v)
                               (JStr []),
                   cd_desc = py_or (case map_of kvs ''description'' of None \<Rightarrow> JStr []
                                    | Some v \<Rightarrow> v) (JStr []),
                   cd_closed = py_eq_1 (case map_of kvs ''is_archived'' of None \<Rightarrow> JInt 0
                                        | Some v \<Rightarrow> v),
                   cd_idBoard = board_id, cd_idList = list_id,
                   cd_pos = list_pos + ci * 16384, cd_idShort = card_counter st,
                   cd_shortLink = gen_short_link env (gen_trello_id env idv),
                   cd_idLabels = idl, cd_labels = cl, cd_idChecklists = idc, cd_due = due,
                   cd_dateLastActivity = utcnow_isoformat env (clock_calls st) @ ''Z'',
                   cd_idOrganization = id_organization\<rparr>],
               card_counter := card_counter st + 1,
               clock_calls := Suc (clock_calls st)\<rparr>"
proof -
  from assms obtain idv where g: "py_getitem card_item ''id'' = Inr idv"
    by (auto simp: convert_card_def split: sum.splits)
  then obtain kvs where k: "card_item = JObj kvs" "map_of kvs ''id'' = Some idv"
    using py_getitem_Inr by blast
  show ?thesis
    using assms unfolding k convert_card_def
    by (simp add: Let_def field_def k split: sum.splits prod.splits)
qed

subsection \<open>Due dates\<close>

text \<open>
  C9. Due-date normalisation: a non-empty due-date string that does not end in \<open>Z\<close>
  gains exactly one trailing \<open>Z\<close>; a string that already ends in \<open>Z\<close> is returned
  unchanged; the empty string and null pass through unchanged; and the \<open>due\<close> of every
  card that is emitted is the normalised \<open>due_date\<close> of its source card, null when the
  field is absent.
\<close>

theorem normalize_due_rules:
  "(s \<noteq> [] \<and> \<not> endswith s ''Z'' \<longrightarrow> normalize_due (JStr s) = Inr (JStr (s @ ''Z'')))
   \<and> (endswith s ''Z'' \<longrightarrow> normalize_due (JStr s) = Inr (JStr s))
   \<and> normalize_due (JStr []) = Inr (JStr [])
   \<and> normalize_due JNull = Inr JNull
   \<and> (map_of kvs ''due_date'' = None \<longrightarrow> field (JObj kvs) ''due_date'' = JNull)
   \<and> (convert_card env board_id list_id list_pos ci card_item st = Inr st' \<longrightarrow>
        normalize_due (field card_item ''due_date'') = Inr (cd_due (last (cards st'))))"
proof -
  have a: "s \<noteq> [] \<and> \<not> endswith s ''Z'' \<longrightarrow> normalize_due (JStr s) = Inr (JStr (s @ ''Z''))"
    by (simp add: normalize_due_def)
  have b: "endswith s ''Z'' \<longrightarrow> normalize_due (JStr s) = Inr (JStr s)"
    by (simp add: normalize_due_def)
  have c: "normalize_due (JStr []) = Inr (JStr [])" "normalize_due JNull = Inr JNull"
    by (simp_all add: normalize_due_def)
  have e: "map_of kvs ''due_date'' = None \<longrightarrow> field (JObj kvs) ''due_date'' = JNull"
    by (simp add: field_def)
  have d: "convert_card env board_id list_id list_pos ci card_item st = Inr st' \<longrightarrow>
        normalize_due (field card_item ''due_date'') = Inr (cd_due (last (cards st')))"
  proof
    assume "convert_card env board_id list_id list_pos ci card_item st = Inr st'"
    from convert_card_Inr[OF this]
    show "normalize_due (field card_item ''due_date'') = Inr (cd_due (last (cards st')))"
      by auto
  qed
  from a b c d e show ?thesis by blast
qed

theorem normalize_due_rules_witness:
  "normalize_due (JStr ''2024-05-01T10:00:00'') = Inr (JStr ''2024-05-01T10:00:00Z'')
   \<and> normalize_due (JStr ''2024-05-01T10:00:00Z'') = Inr (JStr ''2024-05-01T10:00:00Z'')
   \<and> field (JObj [(''id'', JInt 11)]) ''due_date'' = JNull
   \<and> (\<exists>st'. convert_card test_env ''b'' ''l'' 16384 1
               (JObj [(''id'', JInt 11), (''due_date'', JStr ''2024-05-01'')]) init_state = Inr st'
            \<and> cd_due (last (cards st')) = JStr ''2024-05-01Z'')"
proof -
  obtain st' where h: "convert_card test_env ''b'' ''l'' 16384 1
      (JObj [(''id'', JInt 11), (''due_date'', JStr ''2024-05-01'')]) init_state = Inr st'"
    by (simp add: eval_defs)
  have n: "normalize_due (field (JObj [(''id'', JInt 11), (''due_date'', JStr ''2024-05-01'')])
             ''due_date'') = Inr (JStr ''2024-05-01Z'')"
    by (simp add: field_def normalize_due_def endswith_def)
  have p1: "''2024-05-01T10:00:00'' \<noteq> [] \<and> \<not> endswith ''2024-05-01T10:00:00'' ''Z''"
    by (simp add: endswith_def)
  have p2: "endswith ''2024-05-01T10:00:00Z'' ''Z''"
    by (simp add: endswith_def)
  have p3: "map_of [(''id'', JInt 11)] ''due_date'' = None"
    by simp
  from normalize_due_rules[of "''2024-05-01T10:00:00''" "[(''id'', JInt 11)]" test_env "''b''" "''l''"
         16384 1 "JObj [(''id'', JInt 11), (''due_date'', JStr ''2024-05-01'')]" init_state st']
       normalize_due_rules[of "''2024-05-01T10:00:00Z''" "[(''id'', JInt 11)]" test_env "''b''" "''l''"
         16384 1 "JObj [(''id'', JInt 11), (''due_date'', JStr ''2024-05-01'')]" init_state st']
       p1 p2 p3 h n
  show ?thesis by auto
qed

lemma card_labels_part_Inr:
  assumes "card_labels_part env board_id card_item d = Inr (d', ids, cls)"
  shows "d' = foldl (label_step env board_id) d (card_label_refs card_item)"
    and "list_all is_obj (card_label_refs card_item)"
proof -
  from assms obtain lbs where g: "py_get card_item ''cards_labels'' JNull = Inr lbs"
    by (auto simp: card_labels_part_def split: sum.splits)
  show "d' = foldl (label_step env board_id) d (card_label_refs card_item)"
    using assms g labels_loop_Inr
    by (fastforce simp: card_labels_part_def card_label_refs_def split: sum.splits if_splits)
  show "list_all is_obj (card_label_refs card_item)"
    using assms g labels_loop_Inr
    by (fastforce simp: card_labels_part_def card_label_refs_def split: sum.splits if_splits)
qed

subsection \<open>The \<open>uses\<close> counter\<close>

text \<open>
  C1 (as the code has it). The \<open>uses\<close> counter of a canonical label goes up once for
  every label reference that resolves to it, not once for every card: converting a card
  leaves the counter under a key higher by the number of entries of the card's
  \<open>cards_labels\<close> that map to that key, so by 2 when two entries of one card map to it.
\<close>

theorem uses_counts_references:
  assumes "convert_card env board_id list_id list_pos ci card_item st = Inr st'"
  shows "uses_of (board_labels_dict st') key =
           uses_of (board_labels_dict st) key
           + int (length (filter (\<lambda>r. label_key_of r = key) (card_label_refs card_item)))"
proof -
  from convert_card_Inr[OF assms] obtain dict' idl cl where
    c: "card_labels_part env board_id card_item (board_labels_dict st) = Inr (dict', idl, cl)"
    and s: "board_labels_dict st' = dict'"
    by auto
  from card_labels_part_Inr(1)[OF c] s show ?thesis
    by (simp add: uses_of_foldl)
qed

theorem uses_counts_references_witness:
  "\<exists>st'. convert_card test_env ''b'' ''l'' 16384 1
            (JObj [(''id'', JInt 10),
                   (''cards_labels'', JArr [JObj [(''id'', JInt 5), (''color'', JStr ''#ffce54'')],
                                            JObj [(''id'', JInt 6), (''color'', JStr ''#ffce54'')]])])
            init_state = Inr st'
        \<and> uses_of (board_labels_dict st') (''orange'', ''WARNING'') = 2"
proof -
  obtain st' where h: "convert_card test_env ''b'' ''l'' 16384 1
            (JObj [(''id'', JInt 10),
                   (''cards_labels'', JArr [JObj [(''id'', JInt 5), (''color'', JStr ''#ffce54'')],
                                            JObj [(''id'', JInt 6), (''color'', JStr ''#ffce54'')]])])
            init_state = Inr st'"
    by (simp add: eval_defs)
  from uses_counts_references[OF h, of "(''orange'', ''WARNING'')"] h
  show ?thesis
    by (simp add: card_label_refs_def label_key_of_def mapped_key_def COLOR_MAPPING_def
                  uses_of_def init_state_def)
qed

text \<open>The claim as stated fails: one card whose two label entries (ids 5 and 6) both
  have the colour \<open>#ffce54\<close> takes the counter of the label (orange, WARNING) from 0
  to 2; the two copies embedded in the card carry \<open>uses\<close> 1 and 2.\<close>

theorem uses_once_per_card_counterexample:
  "labels_loop test_env ''b''
     [JObj [(''id'', JInt 5), (''color'', JStr ''#ffce54'')],
      JObj [(''id'', JInt 6), (''color'', JStr ''#ffce54'')]] ([], [], [])
   = Inr ([((''orange'', ''WARNING''),
            \<lparr>lb_id = ''500000000000000000000000'', lb_idBoard = ''b'', lb_name = ''WARNING'',
             lb_color = ''orange'', lb_uses = 2\<rparr>)],
          [''500000000000000000000000'', ''500000000000000000000000''],
          [\<lparr>lb_id = ''500000000000000000000000'', lb_idBoard = ''b'', lb_name = ''WARNING'',
             lb_color = ''orange'', lb_uses = 1\<rparr>,
           \<lparr>lb_id = ''500000000000000000000000'', lb_idBoard = ''b'', lb_name = ''WARNING'',
             lb_color = ''orange'', lb_uses = 2\<rparr>])"
  by (simp add: eval_defs)

subsection \<open>A colour outside the palette\<close>




subsection \<open>What a run that returns went through\<close>

lemma py_sorted_nil: "py_sorted_by_position [] = Inr []"
  by (simp add: py_sorted_by_position_def)

lemma main_Inr_empty:
  assumes "main env restya_data = Inr b" and "input_lists restya_data = []"
  shows "b = empty_board env"
proof -
  from assms(1) obtain data where g: "py_get restya_data ''data'' JNull = Inr data"
    by (auto simp: main_def split: sum.splits)
  show ?thesis
  proof (cases "truthy data")
    case False
    with assms(1) g show ?thesis by (simp add: main_def)
  next
    case True
    with assms(1) g obtain xs where "py_iter data = Inr xs" "py_index0 data = Inr (hd xs)" "xs \<noteq> []"
      by (cases data rule: py_index0.cases) (auto simp: main_def split: sum.splits)
    with assms(2) g True show ?thesis by (simp add: input_lists_def)
  qed
qed

lemma main_Inr_lists:
  assumes "main env restya_data = Inr b" and "input_lists restya_data \<noteq> []"
  shows "\<exists>kvs rest st.
           input_lists restya_data = JObj kvs # rest
         \<and> py_sorted_by_position (input_lists restya_data) = Inr (data_lists_sorted restya_data)
         \<and> lists_loop env (b_id b) 1 (data_lists_sorted restya_data) init_state = Inr st
         \<and> b_id b = gen_trello_id env (case map_of kvs ''board_id'' of None \<Rightarrow> JInt 12345
                                         | Some v \<Rightarrow> v)
         \<and> b = assemble env (b_id b) st"
proof -
  from assms(1) obtain data where g: "py_get restya_data ''data'' JNull = Inr data"
    by (auto simp: main_def split: sum.splits)
  from assms(2) g have t: "truthy data"
    by (auto simp: input_lists_def split: if_splits)
  from assms(1) g t obtain first where f: "py_index0 data = Inr first"
    by (auto simp: main_def split: sum.splits)
  from assms(1) g t f obtain bid where bn: "py_get first ''board_id'' (JInt 12345) = Inr bid"
    by (auto simp: main_def split: sum.splits)
  then obtain kvs where k: "first = JObj kvs" using py_get_Inr by blast
  from f k obtain rest where d: "data = JArr (JObj kvs # rest)"
    by (cases data rule: py_index0.cases) auto
  have il: "input_lists restya_data = JObj kvs # rest"
    using g d by (simp add: input_lists_def)
  from assms(1) g t f bn k d obtain srt where
    s: "py_sorted_by_position (JObj kvs # rest) = Inr srt"
    by (auto simp: main_def Let_def split: sum.splits)
  have ds: "data_lists_sorted restya_data = srt"
    by (simp add: data_lists_sorted_def il s)
  from assms(1) g t f bn k d s obtain st where
    l: "lists_loop env (gen_trello_id env bid) 1 srt init_state = Inr st"
    and b: "b = assemble env (gen_trello_id env bid) st"
    by (auto simp: main_def Let_def split: sum.splits)
  have bi: "b_id b = gen_trello_id env bid" using b by (simp add: assemble_def)
  have bd: "bid = (case map_of kvs ''board_id'' of None \<Rightarrow> JInt 12345 | Some v \<Rightarrow> v)"
    using bn k by simp
  show ?thesis
    using il s ds l b bi bd by auto
qed

lemma main_Inr_loop:
  assumes "main env restya_data = Inr b"
  shows "\<exists>st. lists_loop env (b_id b) 1 (data_lists_sorted restya_data) init_state = Inr st
            \<and> b_cards b = cards st \<and> b_lists b = lists st
            \<and> b_labels b = map snd (board_labels_dict st)
            \<and> b_checklists b = checklists_global st
            \<and> py_sorted_by_position (input_lists restya_data) = Inr (data_lists_sorted restya_data)"
proof (cases "input_lists restya_data = []")
  case True
  from main_Inr_empty[OF assms True] True show ?thesis
    by (simp add: data_lists_sorted_def py_sorted_nil empty_board_def init_state_def)
next
  case False
  from main_Inr_lists[OF assms False] obtain st where
    "lists_loop env (b_id b) 1 (data_lists_sorted restya_data) init_state = Inr st"
    "b = assemble env (b_id b) st"
    "py_sorted_by_position (input_lists restya_data) = Inr (data_lists_sorted restya_data)"
    by blast
  then show ?thesis
    by (metis assemble_def trello_board.select_convs(10,11,12,13))
qed

subsection \<open>The board id\<close>




lemmas eval_loop_defs = main_def assemble_def py_sorted_by_position_def position_of_def
  input_lists_def data_lists_sorted_def


subsection \<open>The loops over cards and lists\<close>

lemma convert_card_summary:
  assumes "convert_card env board_id list_id list_pos ci card_item st = Inr st'"
  shows "\<exists>c0. cards st' = cards st @ [c0]
            \<and> cd_id c0 = source_id env card_item
            \<and> cd_pos c0 = list_pos + ci * 16384
            \<and> cd_idShort c0 = card_counter st
            \<and> cd_idList c0 = list_id
            \<and> card_counter st' = card_counter st + 1
            \<and> lists st' = lists st
            \<and> clock_calls st' = Suc (clock_calls st)
            \<and> board_labels_dict st' =
                 foldl (label_step env board_id) (board_labels_dict st) (card_label_refs card_item)"
proof -
  from convert_card_Inr[OF assms] obtain kvs idv due dict' idl cl chk' idc where
    k: "card_item = JObj kvs" "map_of kvs ''id'' = Some idv"
    and lp: "card_labels_part env board_id card_item (board_labels_dict st) = Inr (dict', idl, cl)"
    and s: "st' = st\<lparr>board_labels_dict := dict', checklists_global := chk',
               cards := cards st @
                 [\<lparr>cd_id = gen_trello_id env idv,
                   cd_name = py_or (case map_of kvs ''name'' of None \<Rightarrow> JStr [] | Some v \<Rightarrow> v)
                               (JStr []),
                   cd_desc = py_or (case map_of kvs ''description'' of None \<Rightarrow> JStr []
                                    | Some v \<Rightarrow> v) (JStr []),
                   cd_closed = py_eq_1 (case map_of kvs ''is_archived'' of None \<Rightarrow> JInt 0
                                        | Some v \<Rightarrow> v),
                   cd_idBoard = board_id, cd_idList = list_id,
                   cd_pos = list_pos + ci * 16384, cd_idShort = card_counter st,
                   cd_shortLink = gen_short_link env (gen_trello_id env idv),
                   cd_idLabels = idl, cd_labels = cl, cd_idChecklists = idc, cd_due = due,
                   cd_dateLastActivity = utcnow_isoformat env (clock_calls st) @ ''Z'',
                   cd_idOrganization = id_organization\<rparr>],
               card_counter := card_counter st + 1,
               clock_calls := Suc (clock_calls st)\<rparr>"
    by (elim exE conjE)
  have d: "dict' = foldl (label_step env board_id) (board_labels_dict st) (card_label_refs card_item)"
    by (rule card_labels_part_Inr(1)[OF lp])
  have sid: "source_id env card_item = gen_trello_id env idv"
    using k by (simp add: source_id_def)
  show ?thesis
    unfolding s sid d[symmetric] by simp
qed


lemma map_upt_shift:
  "map (\<lambda>i. c + int i) [0..<a + b]
     = map (\<lambda>i. c + int i) [0..<a] @ map (\<lambda>i. (c + int a) + int i) [0..<b]"
  by (induction b) (simp_all add: add.assoc)

lemma cards_loop_Inr:
  "cards_loop env board_id list_id list_pos ci items st = Inr st' \<Longrightarrow>
     \<exists>new. cards st' = cards st @ new
       \<and> map cd_id new = map (source_id env) items
       \<and> map cd_pos new = map (\<lambda>i. list_pos + (ci + int i) * 16384) [0..<length items]
       \<and> map cd_idShort new = map (\<lambda>i. card_counter st + int i) [0..<length items]
       \<and> (\<forall>c\<in>set new. cd_idList c = list_id)
       \<and> card_counter st' = card_counter st + int (length items)
       \<and> lists st' = lists st
       \<and> clock_calls st' = clock_calls st + length items
       \<and> board_labels_dict st' =
           foldl (label_step env board_id) (board_labels_dict st) (concat (map card_label_refs items))"
proof (induction items arbitrary: ci st)
  case Nil
  then show ?case by simp
next
  case (Cons card_item items)
  from Cons.prems obtain st1 where
    c: "convert_card env board_id list_id list_pos ci card_item st = Inr st1"
    and r: "cards_loop env board_id list_id list_pos (ci + 1) items st1 = Inr st'"
    by (auto split: sum.splits)
  from convert_card_summary[OF c] obtain c0 where
    s1: "cards st1 = cards st @ [c0]" "cd_id c0 = source_id env card_item"
        "cd_pos c0 = list_pos + ci * 16384" "cd_idShort c0 = card_counter st"
        "cd_idList c0 = list_id" "card_counter st1 = card_counter st + 1"
        "lists st1 = lists st" "clock_calls st1 = Suc (clock_calls st)"
        "board_labels_dict st1 =
           foldl (label_step env board_id) (board_labels_dict st) (card_label_refs card_item)"
    by (elim exE conjE)
  from Cons.IH[OF r] obtain new where
    n: "cards st' = cards st1 @ new"
       "map cd_id new = map (source_id env) items"
       "map cd_pos new = map (\<lambda>i. list_pos + (ci + 1 + int i) * 16384) [0..<length items]"
       "map cd_idShort new = map (\<lambda>i. card_counter st1 + int i) [0..<length items]"
       "\<forall>c\<in>set new. cd_idList c = list_id"
       "card_counter st' = card_counter st1 + int (length items)"
       "lists st' = lists st1"
       "clock_calls st' = clock_calls st1 + length items"
       "board_labels_dict st' =
           foldl (label_step env board_id) (board_labels_dict st1) (concat (map card_label_refs items))"
    by (elim exE conjE)
  have a1: "cards st' = cards st @ (c0 # new)" using n(1) s1(1) by simp
  have a2: "map cd_id (c0 # new) = map (source_id env) (card_item # items)"
    using n(2) s1(2) by simp
  have e3: "(\<lambda>i. list_pos + (ci + 1 + int i) * 16384) = (\<lambda>i. list_pos + (ci + int (Suc i)) * 16384)"
    by (rule ext) (simp add: algebra_simps)
  have a3: "map cd_pos (c0 # new)
      = map (\<lambda>i. list_pos + (ci + int i) * 16384) [0..<length (card_item # items)]"
    using n(3) s1(3) unfolding e3 by (simp add: map_upt_Suc del: upt_Suc)
  have e4: "(\<lambda>i. card_counter st + 1 + int i) = (\<lambda>i. card_counter st + int (Suc i))"
    by (rule ext) simp
  have a4: "map cd_idShort (c0 # new)
      = map (\<lambda>i. card_counter st + int i) [0..<length (card_item # items)]"
    using n(4) s1(4) unfolding s1(6) e4 by (simp add: map_upt_Suc del: upt_Suc)
  have a5: "\<forall>c\<in>set (c0 # new). cd_idList c = list_id" using n(5) s1(5) by simp
  have a6: "card_counter st' = card_counter st + int (length (card_item # items))"
    using n(6) s1(6) by simp
  have a7: "lists st' = lists st" using n(7) s1(7) by simp
  have a8: "clock_calls st' = clock_calls st + length (card_item # items)"
    using n(8) s1(8) by simp
  have a9: "board_labels_dict st' =
           foldl (label_step env board_id) (board_labels_dict st)
             (concat (map card_label_refs (card_item # items)))"
    using n(9) s1(9) by simp
  from a1 a2 a3 a4 a5 a6 a7 a8 a9 show ?case
    by (intro exI[of _ "c0 # new"] conjI)
qed


lemma convert_list_Inr:
  assumes "convert_list env board_id li list_item st = Inr st'"
  shows "\<exists>kvs idv l0.
           list_item = JObj kvs \<and> map_of kvs ''id'' = Some idv
         \<and> ls_id l0 = source_id env list_item \<and> ls_pos l0 = 16384 * li
         \<and> ls_name l0 = py_or (case map_of kvs ''name'' of None \<Rightarrow> JStr [] | Some v \<Rightarrow> v) (JStr [])
         \<and> cards_loop env board_id (source_id env list_item) (16384 * li) 1 (list_cards list_item)
              (st\<lparr>lists := lists st @ [l0]\<rparr>) = Inr st'"
proof -
  from assms obtain idv where g: "py_getitem list_item ''id'' = Inr idv"
    by (auto simp: convert_list_def split: sum.splits)
  then obtain kvs where k: "list_item = JObj kvs" "map_of kvs ''id'' = Some idv"
    using py_getitem_Inr by blast
  define l0 where "l0 = \<lparr>ls_id = gen_trello_id env idv,
      ls_name = py_or (case map_of kvs ''name'' of None \<Rightarrow> JStr [] | Some v \<Rightarrow> v) (JStr []),
      ls_closed = py_eq_1 (case map_of kvs ''is_archived'' of None \<Rightarrow> JInt 0 | Some v \<Rightarrow> v),
      ls_idBoard = board_id, ls_pos = 16384 * li, ls_idOrganization = id_organization\<rparr>"
  have sid: "source_id env list_item = gen_trello_id env idv"
    using k by (simp add: source_id_def)
  have c: "cards_loop env board_id (gen_trello_id env idv) (16384 * li) 1 (list_cards list_item)
              (st\<lparr>lists := lists st @ [l0]\<rparr>) = Inr st'"
    using assms unfolding k convert_list_def l0_def
    by (simp add: Let_def list_cards_def k split: sum.splits)
  have p: "ls_id l0 = gen_trello_id env idv" "ls_pos l0 = 16384 * li"
     "ls_name l0 = py_or (case map_of kvs ''name'' of None \<Rightarrow> JStr [] | Some v \<Rightarrow> v) (JStr [])"
    by (simp_all add: l0_def)
  from k p c show ?thesis
    unfolding sid by (intro exI[of _ kvs] exI[of _ idv] exI[of _ l0] conjI)
qed

lemma convert_list_summary:
  assumes "convert_list env board_id li list_item st = Inr st'"
  shows "\<exists>l0 new. lists st' = lists st @ [l0] \<and> cards st' = cards st @ new
       \<and> ls_id l0 = source_id env list_item \<and> ls_pos l0 = 16384 * li
       \<and> map cd_id new = map (source_id env) (list_cards list_item)
       \<and> map cd_pos new = map (\<lambda>i. 16384 * li + (1 + int i) * 16384)
                               [0..<length (list_cards list_item)]
       \<and> map cd_idShort new = map (\<lambda>i. card_counter st + int i) [0..<length new]
       \<and> (\<forall>c\<in>set new. cd_idList c = source_id env list_item)
       \<and> card_counter st' = card_counter st + int (length new)
       \<and> clock_calls st' = clock_calls st + length new
       \<and> board_labels_dict st' =
           foldl (label_step env board_id) (board_labels_dict st)
             (concat (map card_label_refs (list_cards list_item)))"
proof -
  from convert_list_Inr[OF assms] obtain l0 where
    l: "ls_id l0 = source_id env list_item" "ls_pos l0 = 16384 * li"
    and c: "cards_loop env board_id (source_id env list_item) (16384 * li) 1 (list_cards list_item)
              (st\<lparr>lists := lists st @ [l0]\<rparr>) = Inr st'"
    by (elim exE conjE)
  from cards_loop_Inr[OF c] obtain new where
    n: "cards st' = cards (st\<lparr>lists := lists st @ [l0]\<rparr>) @ new"
       "map cd_id new = map (source_id env) (list_cards list_item)"
       "map cd_pos new = map (\<lambda>i. 16384 * li + (1 + int i) * 16384)
                               [0..<length (list_cards list_item)]"
       "map cd_idShort new = map (\<lambda>i. card_counter (st\<lparr>lists := lists st @ [l0]\<rparr>) + int i)
                               [0..<length (list_cards list_item)]"
       "\<forall>c\<in>set new. cd_idList c = source_id env list_item"
       "card_counter st' = card_counter (st\<lparr>lists := lists st @ [l0]\<rparr>)
                             + int (length (list_cards list_item))"
       "lists st' = lists (st\<lparr>lists := lists st @ [l0]\<rparr>)"
       "clock_calls st' = clock_calls (st\<lparr>lists := lists st @ [l0]\<rparr>)
                             + length (list_cards list_item)"
       "board_labels_dict st' =
           foldl (label_step env board_id) (board_labels_dict (st\<lparr>lists := lists st @ [l0]\<rparr>))
             (concat (map card_label_refs (list_cards list_item)))"
    by (elim exE conjE)
  have len: "length new = length (list_cards list_item)"
    using arg_cong[OF n(2), of length] by simp
  have b1: "lists st' = lists st @ [l0]" using n(7) by simp
  have b2: "cards st' = cards st @ new" using n(1) by simp
  have b4: "map cd_idShort new = map (\<lambda>i. card_counter st + int i) [0..<length new]"
    using n(4) len by simp
  have b5: "card_counter st' = card_counter st + int (length new)" using n(6) len by simp
  have b6: "clock_calls st' = clock_calls st + length new" using n(8) len by simp
  have b7: "board_labels_dict st' =
           foldl (label_step env board_id) (board_labels_dict st)
             (concat (map card_label_refs (list_cards list_item)))"
    using n(9) by simp
  from b1 b2 l n(2) n(3) b4 n(5) b5 b6 b7 show ?thesis
    by (intro exI[of _ l0] exI[of _ new] conjI)
qed

lemma lists_loop_Inr:
  "lists_loop env board_id li ls st = Inr st' \<Longrightarrow>
     \<exists>newl groups.
         lists st' = lists st @ newl \<and> cards st' = cards st @ concat groups
       \<and> length groups = length ls
       \<and> map ls_id newl = map (source_id env) ls
       \<and> map ls_pos newl = map (\<lambda>k. 16384 * (li + int k)) [0..<length ls]
       \<and> (\<forall>k<length ls.
             map cd_id (groups ! k) = map (source_id env) (list_cards (ls ! k))
           \<and> map cd_pos (groups ! k) =
               map (\<lambda>i. 16384 * (li + int k) + (1 + int i) * 16384)
                   [0..<length (list_cards (ls ! k))]
           \<and> (\<forall>c\<in>set (groups ! k). cd_idList c = source_id env (ls ! k)))
       \<and> map cd_idShort (concat groups)
             = map (\<lambda>i. card_counter st + int i) [0..<length (concat groups)]
       \<and> card_counter st' = card_counter st + int (length (concat groups))
       \<and> clock_calls st' = clock_calls st + length (concat groups)
       \<and> board_labels_dict st' =
           foldl (label_step env board_id) (board_labels_dict st) (all_label_refs ls)"
proof (induction ls arbitrary: li st)
  case Nil
  then show ?case by (simp add: all_label_refs_def)
next
  case (Cons list_item ls)
  from Cons.prems obtain st1 where
    c: "convert_list env board_id li list_item st = Inr st1"
    and r: "lists_loop env board_id (li + 1) ls st1 = Inr st'"
    by (auto split: sum.splits)
  from convert_list_summary[OF c] obtain l0 new where
    s: "lists st1 = lists st @ [l0]" "cards st1 = cards st @ new"
       "ls_id l0 = source_id env list_item" "ls_pos l0 = 16384 * li"
       "map cd_id new = map (source_id env) (list_cards list_item)"
       "map cd_pos new = map (\<lambda>i. 16384 * li + (1 + int i) * 16384)
                               [0..<length (list_cards list_item)]"
       "map cd_idShort new = map (\<lambda>i. card_counter st + int i) [0..<length new]"
       "\<forall>c\<in>set new. cd_idList c = source_id env list_item"
       "card_counter st1 = card_counter st + int (length new)"
       "clock_calls st1 = clock_calls st + length new"
       "board_labels_dict st1 =
           foldl (label_step env board_id) (board_labels_dict st)
             (concat (map card_label_refs (list_cards list_item)))"
    by (elim exE conjE)
  from Cons.IH[OF r] obtain newl groups where
    n: "lists st' = lists st1 @ newl" "cards st' = cards st1 @ concat groups"
       "length groups = length ls"
       "map ls_id newl = map (source_id env) ls"
       "map ls_pos newl = map (\<lambda>k. 16384 * (li + 1 + int k)) [0..<length ls]"
       "\<forall>k<length ls.
             map cd_id (groups ! k) = map (source_id env) (list_cards (ls ! k))
           \<and> map cd_pos (groups ! k) =
               map (\<lambda>i. 16384 * (li + 1 + int k) + (1 + int i) * 16384)
                   [0..<length (list_cards (ls ! k))]
           \<and> (\<forall>c\<in>set (groups ! k). cd_idList c = source_id env (ls ! k))"
       "map cd_idShort (concat groups)
             = map (\<lambda>i. card_counter st1 + int i) [0..<length (concat groups)]"
       "card_counter st' = card_counter st1 + int (length (concat groups))"
       "clock_calls st' = clock_calls st1 + length (concat groups)"
       "board_labels_dict st' =
           foldl (label_step env board_id) (board_labels_dict st1) (all_label_refs ls)"
    by (elim exE conjE)
  have a1: "lists st' = lists st @ (l0 # newl)" using n(1) s(1) by simp
  have a2: "cards st' = cards st @ concat (new # groups)" using n(2) s(2) by simp
  have a3: "length (new # groups) = length (list_item # ls)" using n(3) by simp
  have a4: "map ls_id (l0 # newl) = map (source_id env) (list_item # ls)"
    using n(4) s(3) by simp
  have e5: "(\<lambda>k. 16384 * (li + 1 + int k)) = (\<lambda>k. 16384 * (li + int (Suc k)))"
    by (rule ext) (simp add: algebra_simps)
  have a5: "map ls_pos (l0 # newl) = map (\<lambda>k. 16384 * (li + int k)) [0..<length (list_item # ls)]"
    using n(5) s(4) unfolding e5 by (simp add: map_upt_Suc del: upt_Suc)
  have a6: "\<forall>k<length (list_item # ls).
             map cd_id ((new # groups) ! k) = map (source_id env) (list_cards ((list_item # ls) ! k))
           \<and> map cd_pos ((new # groups) ! k) =
               map (\<lambda>i. 16384 * (li + int k) + (1 + int i) * 16384)
                   [0..<length (list_cards ((list_item # ls) ! k))]
           \<and> (\<forall>c\<in>set ((new # groups) ! k). cd_idList c = source_id env ((list_item # ls) ! k))"
  proof (intro allI impI)
    fix k assume kl: "k < length (list_item # ls)"
    show "map cd_id ((new # groups) ! k) = map (source_id env) (list_cards ((list_item # ls) ! k))
           \<and> map cd_pos ((new # groups) ! k) =
               map (\<lambda>i. 16384 * (li + int k) + (1 + int i) * 16384)
                   [0..<length (list_cards ((list_item # ls) ! k))]
           \<and> (\<forall>c\<in>set ((new # groups) ! k). cd_idList c = source_id env ((list_item # ls) ! k))"
    proof (cases k)
      case 0
      then show ?thesis using s(5) s(6) s(8) by simp
    next
      case (Suc j)
      with kl have j: "j < length ls" by simp
      have e: "16384 * (li + 1 + int j) = 16384 * (li + int (Suc j))" by simp
      from n(6) j show ?thesis unfolding Suc e[symmetric] nth_Cons_Suc by blast
    qed
  qed
  have a7: "map cd_idShort (concat (new # groups))
             = map (\<lambda>i. card_counter st + int i) [0..<length (concat (new # groups))]"
    using n(7) s(7) unfolding s(9)
    by (simp add: map_upt_shift del: upt_Suc)
  have a8: "card_counter st' = card_counter st + int (length (concat (new # groups)))"
    using n(8) s(9) by simp
  have a9: "clock_calls st' = clock_calls st + length (concat (new # groups))"
    using n(9) s(10) by simp
  have a10: "board_labels_dict st' =
           foldl (label_step env board_id) (board_labels_dict st) (all_label_refs (list_item # ls))"
    using n(10) s(11) by (simp add: all_label_refs_def)
  from a1 a2 a3 a4 a5 a6 a7 a8 a9 a10 show ?case
    by (intro exI[of _ "l0 # newl"] exI[of _ "new # groups"] conjI)
qed

subsection \<open>The sort by position\<close>









subsection \<open>The example board, run\<close>

lemma sample_run:
  "main test_env sample_input = Inr (sample_output ''2024-01-01T00:00:00Z'')"
  by (simp add: sample_input_def sample_output_def sample_cards_def sample_label_def
                eval_defs eval_loop_defs)

lemma sample_run_later:
  "main test_env_later sample_input = Inr (sample_output ''2025-06-30T12:00:00Z'')"
  by (simp add: sample_input_def sample_output_def sample_cards_def sample_label_def
                test_env_later_def eval_defs eval_loop_defs)


subsection \<open>Order of lists and cards, and the card counter\<close>

lemma map_from_one: "map f [1..<Suc n] = map (\<lambda>k. f (Suc k)) [0..<n]"
proof -
  have "[1..<Suc n] = map Suc [0..<n]" by (simp add: map_Suc_upt)
  then show ?thesis by (simp add: o_def)
qed


lemma concat_groups_map:
  assumes "length groups = length srt"
    and "\<forall>k<length srt. map f (groups ! k) = map g (h (srt ! k))"
  shows "map f (concat groups) = map g (concat (map h srt))"
proof -
  have "map (map f) groups = map (\<lambda>l. map g (h l)) srt"
    using assms by (intro nth_equalityI) simp_all
  then have "concat (map (map f) groups) = concat (map (\<lambda>l. map g (h l)) srt)" by simp
  then show ?thesis by (simp add: map_concat o_def)
qed

text \<open>
  C8. The \<open>idShort\<close> values of the cards written are 1, 2, 3, ... in the order of the
  \<open>cards\<close> collection, which is the order of the traversal: the sorted lists one after
  the other, and within a list its cards in source order. The counter runs over the whole
  board and is not reset between lists.
\<close>

theorem idShort_sequence:
  assumes "main env restya_data = Inr b"
  shows "map cd_idShort (b_cards b) = map int [1..<Suc (length (b_cards b))]
       \<and> map cd_id (b_cards b)
           = map (source_id env) (concat (map list_cards (data_lists_sorted restya_data)))"
proof -
  from main_Inr_loop[OF assms] obtain st where
    l: "lists_loop env (b_id b) 1 (data_lists_sorted restya_data) init_state = Inr st"
    and c: "b_cards b = cards st"
    by (elim exE conjE)
  from lists_loop_Inr[OF l] obtain groups where
    g: "cards st = cards init_state @ concat groups"
       "length groups = length (data_lists_sorted restya_data)"
       "\<forall>k<length (data_lists_sorted restya_data).
             map cd_id (groups ! k) = map (source_id env) (list_cards (data_lists_sorted restya_data ! k))
           \<and> map cd_pos (groups ! k) =
               map (\<lambda>i. 16384 * (1 + int k) + (1 + int i) * 16384)
                   [0..<length (list_cards (data_lists_sorted restya_data ! k))]
           \<and> (\<forall>c\<in>set (groups ! k). cd_idList c = source_id env (data_lists_sorted restya_data ! k))"
       "map cd_idShort (concat groups)
             = map (\<lambda>i. card_counter init_state + int i) [0..<length (concat groups)]"
    by (elim exE conjE)
  have cg: "b_cards b = concat groups" using c g(1) by (simp add: init_state_def)
  have "map cd_idShort (b_cards b) = map (\<lambda>i. 1 + int i) [0..<length (b_cards b)]"
    using g(4) cg by (simp add: init_state_def)
  also have "\<dots> = map int [1..<Suc (length (b_cards b))]"
    by (subst map_from_one) (simp add: add.commute)
  finally have a: "map cd_idShort (b_cards b) = map int [1..<Suc (length (b_cards b))]" .
  have "\<forall>k<length (data_lists_sorted restya_data).
          map cd_id (groups ! k) = map (source_id env) (list_cards (data_lists_sorted restya_data ! k))"
    using g(3) by blast
  from concat_groups_map[OF g(2) this] cg a show ?thesis by simp
qed



theorem idShort_sequence_witness:
  "main test_env sample_input = Inr (sample_output ''2024-01-01T00:00:00Z'')
   \<and> map cd_idShort (b_cards (sample_output ''2024-01-01T00:00:00Z'')) = [1, 2, 3]
   \<and> map cd_id (b_cards (sample_output ''2024-01-01T00:00:00Z''))
       = map (source_id test_env) (concat (map list_cards (data_lists_sorted sample_input)))"
proof -
  from idShort_sequence[OF sample_run]
  have a: "map cd_idShort (b_cards (sample_output ''2024-01-01T00:00:00Z''))
             = map int [1..<Suc (length (b_cards (sample_output ''2024-01-01T00:00:00Z'')))]"
    and b: "map cd_id (b_cards (sample_output ''2024-01-01T00:00:00Z''))
       = map (source_id test_env) (concat (map list_cards (data_lists_sorted sample_input)))"
    by blast+
  have l: "length (b_cards (sample_output ''2024-01-01T00:00:00Z'')) = 3"
    by (simp add: sample_output_def sample_cards_def)
  have "map int [1..<Suc 3] = [1, 2, 3]" by (simp add: upt_rec)
  with a l have "map cd_idShort (b_cards (sample_output ''2024-01-01T00:00:00Z'')) = [1, 2, 3]"
    by simp
  with b sample_run show ?thesis by blast
qed




subsection \<open>The board's labels\<close>

text \<open>
  C6. The \<open>labels\<close> collection of the board holds exactly one label for each
  (colour, name) pair that some label reference of some card resolves to: the pairs of
  its entries are distinct, they are exactly the pairs referenced, and so there are as many
  entries as distinct pairs referenced. The id of each entry is \<open>gen_trello_id\<close> of the
  \<open>id\<close> of the first source label, in traversal order (sorted lists, their cards, each
  card's references), that resolves to the entry's pair (of the string
  \<open>unknownLabel\<close> when that source label has no \<open>id\<close>).
\<close>

theorem labels_deduplicated:
  assumes "main env restya_data = Inr b"
  shows "distinct (map (\<lambda>l. (lb_color l, lb_name l)) (b_labels b))
       \<and> set (map (\<lambda>l. (lb_color l, lb_name l)) (b_labels b))
           = label_key_of ` set (all_label_refs (data_lists_sorted restya_data))
       \<and> length (b_labels b)
           = card (label_key_of ` set (all_label_refs (data_lists_sorted restya_data)))
       \<and> (\<forall>l\<in>set (b_labels b).
            \<exists>r. find (\<lambda>r. label_key_of r = (lb_color l, lb_name l))
                      (all_label_refs (data_lists_sorted restya_data)) = Some r
               \<and> lb_id l = label_id_of env r)"
proof -
  define refs where "refs = all_label_refs (data_lists_sorted restya_data)"
  from main_Inr_loop[OF assms] obtain st where
    l: "lists_loop env (b_id b) 1 (data_lists_sorted restya_data) init_state = Inr st"
    and c: "b_labels b = map snd (board_labels_dict st)"
    by (elim exE conjE)
  from lists_loop_Inr[OF l] have
    d: "board_labels_dict st = foldl (label_step env (b_id b)) [] refs"
    unfolding refs_def by (auto simp: init_state_def)
  define dict where "dict = board_labels_dict st"
  have ok: "dict_ok dict"
    unfolding dict_def d by (rule dict_ok_foldl) (simp add: dict_ok_def)
  have keys: "distinct (map fst dict)" "fst ` set dict = label_key_of ` set refs"
    unfolding dict_def d using foldl_label_step_keys[of "[]" env "b_id b" refs] by simp_all
  have km: "map (\<lambda>l. (lb_color l, lb_name l)) (map snd dict) = map fst dict"
    using ok by (auto simp: dict_ok_def list_all_iff)
  have a: "distinct (map (\<lambda>l. (lb_color l, lb_name l)) (b_labels b))"
    unfolding c dict_def[symmetric] km by (rule keys(1))
  have s: "set (map (\<lambda>l. (lb_color l, lb_name l)) (b_labels b)) = label_key_of ` set refs"
    unfolding c dict_def[symmetric] km using keys(2) by simp
  have n: "length (b_labels b) = card (label_key_of ` set refs)"
    using distinct_card[OF a] s by simp
  have i: "\<forall>l\<in>set (b_labels b).
            \<exists>r. find (\<lambda>r. label_key_of r = (lb_color l, lb_name l)) refs = Some r
               \<and> lb_id l = label_id_of env r"
  proof
    fix l assume "l \<in> set (b_labels b)"
    then obtain k where kl: "(k, l) \<in> set dict"
      unfolding c dict_def[symmetric] by auto
    with ok have k: "k = (lb_color l, lb_name l)"
      by (auto simp: dict_ok_def list_all_iff)
    from kl keys(1) have m: "map_of dict k = Some l" by simp
    from id_foldl[of env "b_id b" "[]" refs k] m
    have "Some (lb_id l) = map_option (label_id_of env) (find (\<lambda>r. label_key_of r = k) refs)"
      unfolding dict_def d by simp
    then show "\<exists>r. find (\<lambda>r. label_key_of r = (lb_color l, lb_name l)) refs = Some r
               \<and> lb_id l = label_id_of env r"
      unfolding k by (cases "find (\<lambda>r. label_key_of r = (lb_color l, lb_name l)) refs") auto
  qed
  from a s n i show ?thesis unfolding refs_def by blast
qed

theorem labels_deduplicated_witness:
  "main test_env sample_input = Inr (sample_output ''2024-01-01T00:00:00Z'')
   \<and> distinct (map (\<lambda>l. (lb_color l, lb_name l)) (b_labels (sample_output ''2024-01-01T00:00:00Z'')))
   \<and> set (map (\<lambda>l. (lb_color l, lb_name l)) (b_labels (sample_output ''2024-01-01T00:00:00Z'')))
       = label_key_of ` set (all_label_refs (data_lists_sorted sample_input))
   \<and> (\<exists>r. find (\<lambda>r. label_key_of r = (''orange'', ''WARNING''))
               (all_label_refs (data_lists_sorted sample_input)) = Some r
          \<and> lb_id (sample_label 2) = label_id_of test_env r)"
proof -
  have m: "sample_label 2 \<in> set (b_labels (sample_output ''2024-01-01T00:00:00Z''))"
    by (simp add: sample_output_def)
  have k: "(lb_color (sample_label 2), lb_name (sample_label 2)) = (''orange'', ''WARNING'')"
    by (simp add: sample_label_def)
  from labels_deduplicated[OF sample_run] have
    d: "distinct (map (\<lambda>l. (lb_color l, lb_name l))
          (b_labels (sample_output ''2024-01-01T00:00:00Z'')))"
    and s: "set (map (\<lambda>l. (lb_color l, lb_name l))
          (b_labels (sample_output ''2024-01-01T00:00:00Z'')))
       = label_key_of ` set (all_label_refs (data_lists_sorted sample_input))"
    and i: "\<forall>l\<in>set (b_labels (sample_output ''2024-01-01T00:00:00Z'')).
            \<exists>r. find (\<lambda>r. label_key_of r = (lb_color l, lb_name l))
                      (all_label_refs (data_lists_sorted sample_input)) = Some r
               \<and> lb_id l = label_id_of test_env r"
    by blast+
  from i m have "\<exists>r. find (\<lambda>r. label_key_of r
                         = (lb_color (sample_label 2), lb_name (sample_label 2)))
                      (all_label_refs (data_lists_sorted sample_input)) = Some r
               \<and> lb_id (sample_label 2) = label_id_of test_env r"
    by (rule bspec)
  then have e: "\<exists>r. find (\<lambda>r. label_key_of r = (''orange'', ''WARNING''))
               (all_label_refs (data_lists_sorted sample_input)) = Some r
          \<and> lb_id (sample_label 2) = label_id_of test_env r"
    unfolding k .
  from sample_run d s e show ?thesis by (intro conjI)
qed

end
